theory Spec2Isabelle
  imports Complex_Main "HOL-Library.Sublist" "HOL-Library.Multiset"
begin

section \<open>Data model (src/src/lib/supabase.ts and the SQL schema)\<close>

text \<open>
  Timestamps are the integers that \<^verbatim>\<open>new Date(s).getTime()\<close> returns for the ISO strings
  the database sends: milliseconds since the epoch. A nullable \<^verbatim>\<open>timestamptz\<close> column is an
  option; the database never sends an empty string for it, so JavaScript's truthiness
  test \<^verbatim>\<open>t.resolved_at\<close> is \<open>resolved_at t \<noteq> None\<close>.

  Text is a \<open>string\<close> holding the bytes of its UTF-8 form.

  The reference tables share the column names \<^verbatim>\<open>id\<close>, \<^verbatim>\<open>name\<close>, \<^verbatim>\<open>color\<close> and
  \<^verbatim>\<open>created_at\<close>; their fields carry the prefixes \<open>cat_\<close>, \<open>pri_\<close> and \<open>st_\<close>. The ticket
  keeps the column names, with \<open>id'\<close> for \<^verbatim>\<open>id\<close>.
\<close>

type_synonym timestamp = int

record Category =
  cat_id :: string
  cat_name :: string
  cat_description :: string
  cat_color :: string
  cat_created_at :: timestamp

record Priority =
  pri_id :: string
  pri_name :: string
  pri_level :: int
  pri_color :: string
  pri_created_at :: timestamp

record Status =
  st_id :: string
  st_name :: string
  st_order :: int
  st_color :: string
  is_closed :: bool
  st_created_at :: timestamp

record Ticket =
  id' :: string
  ticket_number :: string
  title :: string
  description :: string
  category_id :: string
  priority_id :: string
  status_id :: string
  requester_name :: string
  requester_email :: string
  assigned_to :: string
  created_at :: timestamp
  updated_at :: timestamp
  resolved_at :: "timestamp option"
  closed_at :: "timestamp option"

record TicketWithRelations = Ticket +
  categories :: Category
  priorities :: Priority
  statuses :: Status

record TicketComment =
  c_id :: string
  ticket_id :: string
  comment :: string
  author_name :: string
  is_internal :: bool
  c_created_at :: timestamp

section \<open>Numbers and their decimal text\<close>

text \<open>
  \<^verbatim>\<open>Math.round(a / b)\<close> on the quotient of two numbers: the nearest integer, a half
  rounding towards plus infinity. The quotient is taken in exact arithmetic; the
  double-precision quotient of the source differs from it by a relative error near
  \<open>10\<^sup>-\<^sup>1\<^sup>6\<close>, which is not modelled.
\<close>

definition Math_round :: "real \<Rightarrow> int" where
  "Math_round x = \<lfloor>x + 1 / 2\<rfloor>"

definition digit_char :: "nat \<Rightarrow> char" where
  "digit_char d = ''0123456789'' ! d"

fun nat_to_text :: "nat \<Rightarrow> string" where
  "nat_to_text n = (if n < 10 then [digit_char n] else nat_to_text (n div 10) @ [digit_char (n mod 10)])"

declare nat_to_text.simps [simp del]

text \<open>The decimal text of an integer: a template literal in TypeScript, \<^verbatim>\<open>::text\<close> in SQL.\<close>

definition int_to_text :: "int \<Rightarrow> string" where
  "int_to_text i = (if i < 0 then CHR ''-'' # nat_to_text (nat (- i)) else nat_to_text (nat i))"

section \<open>Aggregation over the fetched tickets (src/src/components/Reports.tsx)\<close>

text \<open>
  The two date inputs hold \<^verbatim>\<open>''\<close> or a date; \<open>None\<close> is the empty (falsy) input and
  \<open>Some d\<close> carries the instant of \<^verbatim>\<open>new Date(startDate)\<close>, which for a date-only
  string is midnight UTC at the start of that day.
\<close>

definition filterTicketsByDate ::
  "TicketWithRelations list \<Rightarrow> timestamp option \<Rightarrow> timestamp option \<Rightarrow> TicketWithRelations list" where
  "filterTicketsByDate tickets startDate endDate =
     (if startDate = None \<and> endDate = None then tickets
      else filter (\<lambda>ticket.
             let ticketDate = created_at ticket in
             (case (startDate, endDate) of
                (Some start, Some end) \<Rightarrow> ticketDate \<ge> start \<and> ticketDate \<le> end
              | (Some start, None) \<Rightarrow> ticketDate \<ge> start
              | (None, Some end) \<Rightarrow> ticketDate \<le> end
              | (None, None) \<Rightarrow> True)) tickets)"

record Metrics =
  total' :: nat
  resolved :: nat
  closed' :: nat
  open' :: nat
  inProgress :: nat
  avgResolutionHours :: int
  byCategory :: "string \<rightharpoonup> nat"
  byPriority :: "string \<rightharpoonup> nat"

text \<open>\<^verbatim>\<open>new Date(x).getTime()\<close> for a nullable column: \<^verbatim>\<open>new Date(null)\<close> is the epoch.\<close>

definition getTime :: "timestamp option \<Rightarrow> int" where
  "getTime x = (case x of None \<Rightarrow> 0 | Some ms \<Rightarrow> ms)"

definition count_up :: "(string \<rightharpoonup> nat) \<Rightarrow> string \<Rightarrow> (string \<rightharpoonup> nat)" where
  "count_up m k = m(k \<mapsto> (case m k of None \<Rightarrow> 0 | Some c \<Rightarrow> c) + 1)"

definition calculateMetrics :: "TicketWithRelations list \<Rightarrow> Metrics" where
  "calculateMetrics filteredTickets =
     (let resolvedTickets = filter (\<lambda>t. resolved_at t \<noteq> None) filteredTickets;
          totalTime = foldl (\<lambda>sum ticket. sum + (getTime (resolved_at ticket) - created_at ticket))
                        0 resolvedTickets
      in \<lparr> total' = length filteredTickets,
           resolved = length (filter (\<lambda>t. resolved_at t \<noteq> None) filteredTickets),
           closed' = length (filter (\<lambda>t. closed_at t \<noteq> None) filteredTickets),
           open' = length (filter (\<lambda>t. st_name (statuses t) = ''Open'') filteredTickets),
           inProgress = length (filter (\<lambda>t. st_name (statuses t) = ''In Progress'') filteredTickets),
           avgResolutionHours =
             (if length resolvedTickets > 0
              then Math_round (of_int totalTime / of_int (1000 * 60 * 60 * int (length resolvedTickets)))
              else 0),
           byCategory = foldl (\<lambda>m ticket. count_up m (cat_name (categories ticket))) Map.empty filteredTickets,
           byPriority = foldl (\<lambda>m ticket. count_up m (pri_name (priorities ticket))) Map.empty filteredTickets \<rparr>)"

text \<open>The "Avg Resolution" card: \<^verbatim>\<open>avgResolutionHours > 0 ? `${avgResolutionHours}h` : 'N/A'\<close>.\<close>

definition avgResolutionDisplay :: "Metrics \<Rightarrow> string" where
  "avgResolutionDisplay metrics =
     (if avgResolutionHours metrics > 0 then int_to_text (avgResolutionHours metrics) @ ''h'' else ''N/A'')"

text \<open>The summary's rates: \<^verbatim>\<open>total > 0 ? Math.round((resolved / total) * 100) : 0\<close>, shown with a percent sign.\<close>

definition resolutionRate :: "Metrics \<Rightarrow> int" where
  "resolutionRate metrics =
     (if total' metrics > 0 then Math_round ((real (resolved metrics) / real (total' metrics)) * 100) else 0)"

definition closureRate :: "Metrics \<Rightarrow> int" where
  "closureRate metrics =
     (if total' metrics > 0 then Math_round ((real (closed' metrics) / real (total' metrics)) * 100) else 0)"

section \<open>The schema's functions and triggers (the SQL migration)\<close>

datatype pg_error =
  numeric_value_out_of_range
  | unique_violation
  | foreign_key_violation
  | not_null_violation

text \<open>
  \<^verbatim>\<open>string LIKE pattern\<close>: \<^verbatim>\<open>%\<close> matches any run of characters, \<^verbatim>\<open>_\<close> any one character,
  every other character itself. The backslash escape is left out: the one pattern of
  this schema is \<^verbatim>\<open>'SD-' || date_part || '-%'\<close>, which has no backslash.
\<close>

fun like_match :: "string \<Rightarrow> string \<Rightarrow> bool" where
  "like_match [] s = (s = [])"
| "like_match (p # ps) [] = (p = CHR ''%'' \<and> like_match ps [])"
| "like_match (p # ps) (c # cs) =
     (if p = CHR ''%'' then like_match ps (c # cs) \<or> like_match (p # ps) cs
      else (p = CHR ''_'' \<or> p = c) \<and> like_match ps cs)"

definition sql_like :: "string \<Rightarrow> string \<Rightarrow> bool" where
  "sql_like s pattern = like_match pattern s"

text \<open>
  \<^verbatim>\<open>LPAD(string, length, fill)\<close>: the string is filled on the left up to the length, and
  a string longer than the length is cut to its first \<open>length\<close> characters.
\<close>

definition lpad :: "string \<Rightarrow> nat \<Rightarrow> string \<Rightarrow> string" where
  "lpad s n fill =
     (if n \<le> length s then take n s
      else take (n - length s) (concat (replicate (n - length s) fill)) @ s)"

text \<open>
  \<^verbatim>\<open>NOW()\<close> as \<^verbatim>\<open>TO_CHAR\<close> reads it: the calendar date of the session's time zone.
  \<^verbatim>\<open>TO_CHAR(d, 'YYYYMMDD')\<close> writes the year with four digits or more, the month and
  the day with two.
\<close>

record pg_date =
  year :: nat
  month :: nat
  day :: nat

definition zero_fill :: "nat \<Rightarrow> string \<Rightarrow> string" where
  "zero_fill k s = replicate (k - length s) CHR ''0'' @ s"

definition to_char_YYYYMMDD :: "pg_date \<Rightarrow> string" where
  "to_char_YYYYMMDD d =
     zero_fill 4 (nat_to_text (year d)) @ zero_fill 2 (nat_to_text (month d)) @ zero_fill 2 (nat_to_text (day d))"

text \<open>
  \<^verbatim>\<open>generate_ticket_number()\<close>. The table \<^verbatim>\<open>tickets\<close> is read through its column
  \<^verbatim>\<open>ticket_number\<close> only, so it is passed as the list of the stored numbers.
  \<^verbatim>\<open>sequence_num\<close> is a 32-bit \<^verbatim>\<open>integer\<close>: assigning a larger count raises an error.
\<close>

definition generate_ticket_number :: "string list \<Rightarrow> pg_date \<Rightarrow> pg_error + string" where
  "generate_ticket_number tickets now =
     (let date_part = to_char_YYYYMMDD now;
          sequence_num = int (length (filter (\<lambda>n. sql_like n (''SD-'' @ date_part @ ''-%'')) tickets)) + 1
      in if sequence_num > 2147483647 then Inl numeric_value_out_of_range
         else Inr (''SD-'' @ date_part @ ''-'' @ lpad (int_to_text sequence_num) 4 ''0''))"

text \<open>
  \<^verbatim>\<open>set_ticket_number()\<close>, the BEFORE INSERT trigger, on the new row's
  \<^verbatim>\<open>ticket_number\<close> (\<open>None\<close> is NULL); it returns the column's value after the trigger.
\<close>

definition set_ticket_number :: "string list \<Rightarrow> pg_date \<Rightarrow> string option \<Rightarrow> pg_error + string option" where
  "set_ticket_number tickets now new_ticket_number =
     (if new_ticket_number = None \<or> new_ticket_number = Some []
      then (case generate_ticket_number tickets now of
              Inl e \<Rightarrow> Inl e
            | Inr ticket_num \<Rightarrow> Inr (Some ticket_num))
      else Inr new_ticket_number)"

text \<open>
  The INSERT as far as the number is concerned: the trigger runs first, then the NOT NULL
  and UNIQUE constraints of the column are checked, and the number is stored.
\<close>

definition insert_ticket_number :: "string list \<Rightarrow> pg_date \<Rightarrow> string option \<Rightarrow> pg_error + string list" where
  "insert_ticket_number tickets now new_ticket_number =
     (case set_ticket_number tickets now new_ticket_number of
        Inl e \<Rightarrow> Inl e
      | Inr None \<Rightarrow> Inl not_null_violation
      | Inr (Some n) \<Rightarrow> if n \<in> set tickets then Inl unique_violation else Inr (tickets @ [n]))"

text \<open>
  An UPDATE of one row of \<^verbatim>\<open>tickets\<close> sets the columns that the request carries
  (\<open>None\<close>: the key is absent from the request). The BEFORE UPDATE trigger
  \<^verbatim>\<open>update_updated_at()\<close> then assigns \<^verbatim>\<open>NEW.updated_at := NOW()\<close>, and the foreign key
  of \<^verbatim>\<open>status_id\<close> is checked against the table \<^verbatim>\<open>statuses\<close>.
\<close>

record TicketUpdate =
  u_status_id :: "string option"
  u_assigned_to :: "string option"
  u_resolved_at :: "timestamp option"
  u_closed_at :: "timestamp option"
  u_updated_at :: "timestamp option"

definition no_updates :: TicketUpdate where
  "no_updates = \<lparr> u_status_id = None, u_assigned_to = None, u_resolved_at = None,
                   u_closed_at = None, u_updated_at = None \<rparr>"

definition set_columns :: "Ticket \<Rightarrow> TicketUpdate \<Rightarrow> Ticket" where
  "set_columns row updates =
     row \<lparr> status_id := (case u_status_id updates of None \<Rightarrow> status_id row | Some v \<Rightarrow> v),
           assigned_to := (case u_assigned_to updates of None \<Rightarrow> assigned_to row | Some v \<Rightarrow> v),
           resolved_at := (case u_resolved_at updates of None \<Rightarrow> resolved_at row | Some v \<Rightarrow> Some v),
           closed_at := (case u_closed_at updates of None \<Rightarrow> closed_at row | Some v \<Rightarrow> Some v),
           updated_at := (case u_updated_at updates of None \<Rightarrow> updated_at row | Some v \<Rightarrow> v) \<rparr>"

definition update_updated_at :: "Ticket \<Rightarrow> timestamp \<Rightarrow> Ticket" where
  "update_updated_at new now = new \<lparr> updated_at := now \<rparr>"

definition update_ticket :: "Status list \<Rightarrow> Ticket \<Rightarrow> TicketUpdate \<Rightarrow> timestamp \<Rightarrow> pg_error + Ticket" where
  "update_ticket statuses_table row updates now =
     (let new = update_updated_at (set_columns row updates) now
      in if status_id new \<in> st_id ` set statuses_table then Inr new else Inl foreign_key_violation)"

text \<open>The rows that the migration inserts into \<^verbatim>\<open>statuses\<close>; the identifiers stand for the generated UUIDs.\<close>

definition default_statuses :: "Status list" where
  "default_statuses =
     [ \<lparr> st_id = ''st-open'', st_name = ''Open'', st_order = 1, st_color = ''#3b82f6'', is_closed = False, st_created_at = 0 \<rparr>,
       \<lparr> st_id = ''st-progress'', st_name = ''In Progress'', st_order = 2, st_color = ''#f59e0b'', is_closed = False, st_created_at = 0 \<rparr>,
       \<lparr> st_id = ''st-waiting'', st_name = ''Waiting'', st_order = 3, st_color = ''#8b5cf6'', is_closed = False, st_created_at = 0 \<rparr>,
       \<lparr> st_id = ''st-resolved'', st_name = ''Resolved'', st_order = 4, st_color = ''#10b981'', is_closed = False, st_created_at = 0 \<rparr>,
       \<lparr> st_id = ''st-closed'', st_name = ''Closed'', st_order = 5, st_color = ''#6b7280'', is_closed = True, st_created_at = 0 \<rparr> ]"

text \<open>
  An INSERT into \<^verbatim>\<open>ticket_comments\<close>: \<^verbatim>\<open>id\<close> and \<^verbatim>\<open>created_at\<close> take their defaults
  (\<^verbatim>\<open>gen_random_uuid()\<close>, passed in as \<open>new_id\<close>, and \<^verbatim>\<open>now()\<close>), and the foreign key of
  \<^verbatim>\<open>ticket_id\<close> is checked against the identifiers of \<^verbatim>\<open>tickets\<close>.
\<close>

definition insert_ticket_comment ::
  "string list \<Rightarrow> TicketComment list \<Rightarrow> string \<Rightarrow> string \<Rightarrow> string \<Rightarrow> bool \<Rightarrow> string \<Rightarrow> timestamp
     \<Rightarrow> pg_error + TicketComment list" where
  "insert_ticket_comment ticket_ids table tid text author internal new_id now =
     (if tid \<in> set ticket_ids
      then Inr (table @ [\<lparr> c_id = new_id, ticket_id = tid, comment = text, author_name = author,
                            is_internal = internal, c_created_at = now \<rparr>])
      else Inl foreign_key_violation)"

section \<open>The ticket's detail view (src/src/components/TicketDetail.tsx)\<close>

text \<open>
  \<open>ticket\<close> is the view's property: the copy of the ticket that the list held when the
  view was opened. \<open>row\<close> is the stored row that \<^verbatim>\<open>.eq('id', ticket.id)\<close> selects.
  \<open>statuses'\<close> is the view's state \<^verbatim>\<open>statuses\<close>, loaded from the table of that name.
  \<open>now1\<close> and \<open>now2\<close> are the browser's clock at the two \<^verbatim>\<open>new Date()\<close>, \<open>db_now\<close> is the
  database's \<^verbatim>\<open>NOW()\<close>. A handler returns the stored data after it and the alerts it showed.
\<close>

definition status_updates ::
  "Status list \<Rightarrow> 'a Ticket_scheme \<Rightarrow> string \<Rightarrow> timestamp \<Rightarrow> timestamp \<Rightarrow> TicketUpdate" where
  "status_updates statuses' ticket newStatusId now1 now2 =
     (let newStatus = find (\<lambda>s. st_id s = newStatusId) statuses';
          updates = no_updates \<lparr> u_status_id := Some newStatusId \<rparr>;
          updates = (if (case newStatus of None \<Rightarrow> False | Some s \<Rightarrow> st_name s = ''Resolved'')
                        \<and> resolved_at ticket = None
                     then updates \<lparr> u_resolved_at := Some now1 \<rparr> else updates);
          updates = (if (case newStatus of None \<Rightarrow> False | Some s \<Rightarrow> is_closed s)
                        \<and> closed_at ticket = None
                     then updates \<lparr> u_closed_at := Some now2 \<rparr> else updates)
      in updates)"

definition handleStatusChange ::
  "Status list \<Rightarrow> Status list \<Rightarrow> 'a Ticket_scheme \<Rightarrow> Ticket \<Rightarrow> string \<Rightarrow> timestamp \<Rightarrow> timestamp \<Rightarrow> timestamp
     \<Rightarrow> Ticket \<times> string list" where
  "handleStatusChange statuses_table statuses' ticket row newStatusId now1 now2 db_now =
     (case update_ticket statuses_table row (status_updates statuses' ticket newStatusId now1 now2) db_now of
        Inl error \<Rightarrow> (row, [''Failed to update status''])
      | Inr row' \<Rightarrow> (row', []))"

definition handleAssignmentChange ::
  "Status list \<Rightarrow> Ticket \<Rightarrow> string \<Rightarrow> timestamp \<Rightarrow> Ticket \<times> string list" where
  "handleAssignmentChange statuses_table row assignedTo db_now =
     (case update_ticket statuses_table row (no_updates \<lparr> u_assigned_to := Some assignedTo \<rparr>) db_now of
        Inl error \<Rightarrow> (row, [''Failed to update assignment''])
      | Inr row' \<Rightarrow> (row', []))"

text \<open>
  \<^verbatim>\<open>String.prototype.trim\<close> removes from both ends the code points that ECMAScript
  calls WhiteSpace and LineTerminator: U+0009 to U+000D, U+0020, U+00A0, U+1680, U+2000
  to U+200A, U+2028, U+2029, U+202F, U+205F, U+3000 and U+FEFF. Text is kept as the bytes
  of its UTF-8 form, and \<open>white_space\<close> lists the UTF-8 forms of these code points.
  \<open>strip\<close> removes the codes of a list from the front of a text for as long as one
  of them is there; the end of the text is the front of the reversed text.
\<close>

definition white_space :: "string list" where
  "white_space =
     [[CHR 0x09], [CHR 0x0A], [CHR 0x0B], [CHR 0x0C], [CHR 0x0D], [CHR 0x20],
      [CHR 0xC2, CHR 0xA0],
      [CHR 0xE1, CHR 0x9A, CHR 0x80],
      [CHR 0xE2, CHR 0x80, CHR 0x80], [CHR 0xE2, CHR 0x80, CHR 0x81], [CHR 0xE2, CHR 0x80, CHR 0x82],
      [CHR 0xE2, CHR 0x80, CHR 0x83], [CHR 0xE2, CHR 0x80, CHR 0x84], [CHR 0xE2, CHR 0x80, CHR 0x85],
      [CHR 0xE2, CHR 0x80, CHR 0x86], [CHR 0xE2, CHR 0x80, CHR 0x87], [CHR 0xE2, CHR 0x80, CHR 0x88],
      [CHR 0xE2, CHR 0x80, CHR 0x89], [CHR 0xE2, CHR 0x80, CHR 0x8A],
      [CHR 0xE2, CHR 0x80, CHR 0xA8], [CHR 0xE2, CHR 0x80, CHR 0xA9], [CHR 0xE2, CHR 0x80, CHR 0xAF],
      [CHR 0xE2, CHR 0x81, CHR 0x9F],
      [CHR 0xE3, CHR 0x80, CHR 0x80],
      [CHR 0xEF, CHR 0xBB, CHR 0xBF]]"

function strip :: "string list \<Rightarrow> string \<Rightarrow> string" where
  "strip codes s =
     (case find (\<lambda>w. w \<noteq> [] \<and> prefix w s) codes of
        None \<Rightarrow> s
      | Some w \<Rightarrow> strip codes (drop (length w) s))"
  by pat_completeness auto
termination
proof (relation "measure (\<lambda>(codes, s). length s)")
  show "wf (measure (\<lambda>(codes, s). length s))" by simp
next
  fix codes :: "string list" and s w :: string
  assume "find (\<lambda>w. w \<noteq> [] \<and> prefix w s) codes = Some w"
  then have "w \<noteq> [] \<and> prefix w s"
    by (auto simp: find_Some_iff)
  then show "((codes, drop (length w) s), (codes, s)) \<in> measure (\<lambda>(codes, s). length s)"
    by (auto simp: prefix_def)
qed

declare strip.simps [simp del]

definition trimStart :: "string \<Rightarrow> string" where
  "trimStart s = strip white_space s"

definition trimEnd :: "string \<Rightarrow> string" where
  "trimEnd s = rev (strip (map rev white_space) (rev s))"

definition trim :: "string \<Rightarrow> string" where
  "trim s = trimEnd (trimStart s)"

record CommentForm =
  newComment :: string
  commentAuthor :: string

definition handleAddComment ::
  "string list \<Rightarrow> TicketComment list \<Rightarrow> 'a Ticket_scheme \<Rightarrow> CommentForm \<Rightarrow> string \<Rightarrow> timestamp
     \<Rightarrow> TicketComment list \<times> CommentForm \<times> string list" where
  "handleAddComment ticket_ids table ticket form new_id db_now =
     (if trim (newComment form) = [] \<or> trim (commentAuthor form) = [] then (table, form, [])
      else (case insert_ticket_comment ticket_ids table (id' ticket) (newComment form)
                   (commentAuthor form) False new_id db_now of
              Inl error \<Rightarrow> (table, form, [''Failed to add comment''])
            | Inr table' \<Rightarrow> (table', form \<lparr> newComment := [] \<rparr>, [])))"

text \<open>
  A run of operations on one ticket. A status change carries the copy of the ticket
  that the acting view holds, which is the stored row only if the view is up to date.
\<close>

record Store =
  ticket_row :: Ticket
  comment_rows :: "TicketComment list"

datatype operation =
  StatusChange Ticket string timestamp timestamp timestamp
  | AssignmentChange string timestamp
  | AddComment CommentForm string timestamp

fun perform :: "Status list \<Rightarrow> Store \<Rightarrow> operation \<Rightarrow> Store" where
  "perform statuses_table s (StatusChange ticket newStatusId now1 now2 db_now) =
     s \<lparr> ticket_row := fst (handleStatusChange statuses_table statuses_table ticket (ticket_row s)
                               newStatusId now1 now2 db_now) \<rparr>"
| "perform statuses_table s (AssignmentChange assignedTo db_now) =
     s \<lparr> ticket_row := fst (handleAssignmentChange statuses_table (ticket_row s) assignedTo db_now) \<rparr>"
| "perform statuses_table s (AddComment form new_id db_now) =
     s \<lparr> comment_rows := fst (handleAddComment [id' (ticket_row s)] (comment_rows s) (ticket_row s)
                                 form new_id db_now) \<rparr>"

fun run :: "Status list \<Rightarrow> Store \<Rightarrow> operation list \<Rightarrow> Store" where
  "run statuses_table s [] = s"
| "run statuses_table s (operation # operations) = run statuses_table (perform statuses_table s operation) operations"

text \<open>The view that issues the operation holds the stamps of the stored row.\<close>

fun up_to_date :: "Store \<Rightarrow> operation \<Rightarrow> bool" where
  "up_to_date s (StatusChange ticket newStatusId now1 now2 db_now) =
     (resolved_at ticket = resolved_at (ticket_row s) \<and> closed_at ticket = closed_at (ticket_row s))"
| "up_to_date s (AssignmentChange assignedTo db_now) = True"
| "up_to_date s (AddComment form new_id db_now) = True"

fun all_up_to_date :: "Status list \<Rightarrow> Store \<Rightarrow> operation list \<Rightarrow> bool" where
  "all_up_to_date statuses_table s [] = True"
| "all_up_to_date statuses_table s (operation # operations) =
     (up_to_date s operation \<and> all_up_to_date statuses_table (perform statuses_table s operation) operations)"

section \<open>The ticket list (TicketList in src/src/components/TicketDetail.tsx)\<close>








text \<open>A sample row of the joined query, for the concrete checks.\<close>

definition sample_ticket ::
  "string \<Rightarrow> string \<Rightarrow> timestamp \<Rightarrow> timestamp option \<Rightarrow> timestamp option \<Rightarrow> Status \<Rightarrow> TicketWithRelations" where
  "sample_ticket ident number created res clo st =
     \<lparr> id' = ident, ticket_number = number, title = ''Printer is down'', description = ''No paper feed'',
       category_id = ''cat-it'', priority_id = ''pri-low'', status_id = st_id st,
       requester_name = ''Dana'', requester_email = ''dana@example.org'', assigned_to = [],
       created_at = created, updated_at = created, resolved_at = res, closed_at = clo,
       categories = \<lparr> cat_id = ''cat-it'', cat_name = ''IT Support'',
                      cat_description = ''Technical issues, software, hardware'', cat_color = ''#3b82f6'',
                      cat_created_at = 0 \<rparr>,
       priorities = \<lparr> pri_id = ''pri-low'', pri_name = ''Low'', pri_level = 1, pri_color = ''#10b981'',
                      pri_created_at = 0 \<rparr>,
       statuses = st \<rparr>"

section \<open>Concrete snapshots used below\<close>

text \<open>
  Instants in milliseconds: 1704067200000 is 2024-01-01T00:00:00Z, a day is 86400000 and
  an hour is 3600000.
\<close>

definition status_open :: Status where
  "status_open = default_statuses ! 0"

definition status_resolved :: Status where
  "status_resolved = default_statuses ! 3"

definition quick_fix_snapshot :: "TicketWithRelations list" where
  "quick_fix_snapshot =
     [sample_ticket ''t1'' ''SD-20240101-0001'' 1704067200000 (Some 1704067800000) None status_resolved]"

definition three_durations_snapshot :: "TicketWithRelations list" where
  "three_durations_snapshot =
     [sample_ticket ''t1'' ''SD-20240101-0001'' 1704067200000 (Some 1704074400000) None status_resolved,
      sample_ticket ''t2'' ''SD-20240101-0002'' 1704070800000 (Some 1704085200000) None status_resolved,
      sample_ticket ''t3'' ''SD-20240101-0003'' 1704074400000 (Some 1704096000000) None status_resolved]"

definition one_of_three_snapshot :: "TicketWithRelations list" where
  "one_of_three_snapshot =
     [sample_ticket ''t1'' ''SD-20240101-0001'' 1704067200000 (Some 1704074400000) None status_open,
      sample_ticket ''t2'' ''SD-20240101-0002'' 1704070800000 None None status_open,
      sample_ticket ''t3'' ''SD-20240101-0003'' 1704074400000 None None status_open]"

definition january_snapshot :: "TicketWithRelations list" where
  "january_snapshot =
     [sample_ticket ''t1'' ''SD-20240101-0001'' (1704067200000 + 9 * 3600000) None None status_open,
      sample_ticket ''t2'' ''SD-20240115-0001'' (1705276800000 + 9 * 3600000) None None status_open,
      sample_ticket ''t3'' ''SD-20240201-0001'' (1706745600000 + 9 * 3600000) None None status_open]"

text \<open>The date range as a predicate on \<^verbatim>\<open>created_at\<close>.\<close>

definition in_range :: "timestamp option \<Rightarrow> timestamp option \<Rightarrow> timestamp \<Rightarrow> bool" where
  "in_range startDate endDate created =
     ((case startDate of None \<Rightarrow> True | Some start \<Rightarrow> created \<ge> start) \<and>
      (case endDate of None \<Rightarrow> True | Some end \<Rightarrow> created \<le> end))"

text \<open>The report's \<^verbatim>\<open>metrics\<close>: \<^verbatim>\<open>calculateMetrics\<close> on the tickets that pass the date filter.\<close>

definition report_metrics :: "TicketWithRelations list \<Rightarrow> timestamp option \<Rightarrow> timestamp option \<Rightarrow> Metrics" where
  "report_metrics tickets startDate endDate = calculateMetrics (filterTicketsByDate tickets startDate endDate)"

text \<open>
  Zero-padded decimal numerals of fixed width, digit by digit: what the specification
  calls NNNN (and YYYY, MM, DD).
\<close>

definition digits4 :: "nat \<Rightarrow> string" where
  "digits4 n = [digit_char (n div 1000 mod 10), digit_char (n div 100 mod 10),
                digit_char (n div 10 mod 10), digit_char (n mod 10)]"

definition digits2 :: "nat \<Rightarrow> string" where
  "digits2 n = [digit_char (n div 10 mod 10), digit_char (n mod 10)]"

text \<open>New Year's Day of 2024, and the numbers of the 9999 tickets created on it one after the other.\<close>

definition new_year_2024 :: pg_date where
  "new_year_2024 = \<lparr> year = 2024, month = 1, day = 1 \<rparr>"

definition full_day_numbers :: "string list" where
  "full_day_numbers = map (\<lambda>n. ''SD-20240101-'' @ digits4 n) [1..<10000]"

text \<open>
  The prefix that the numbers of one day share, and the count of the stored numbers
  that carry it.
\<close>

definition day_prefix :: "pg_date \<Rightarrow> string" where
  "day_prefix now = ''SD-'' @ to_char_YYYYMMDD now @ ''-''"

definition same_day_count :: "string list \<Rightarrow> pg_date \<Rightarrow> nat" where
  "same_day_count tickets now = length (filter (prefix (day_prefix now)) tickets)"

text \<open>
  A configuration in which the status named Resolved is also a closing one, and an open
  ticket of 2024-01-01 as stored and as the list shows it.
\<close>

definition resolved_and_closed :: Status where
  "resolved_and_closed =
     \<lparr> st_id = ''st-resolved'', st_name = ''Resolved'', st_order = 4, st_color = ''#10b981'',
       is_closed = True, st_created_at = 0 \<rparr>"

definition open_ticket :: TicketWithRelations where
  "open_ticket = sample_ticket ''t1'' ''SD-20240101-0001'' 1704067200000 None None status_open"

definition open_row :: Ticket where
  "open_row = Ticket.truncate open_ticket"

text \<open>
  The same ticket once it has been resolved at 2024-01-01T01:00:00Z and closed an hour
  later, with an empty comment thread; \<open>open_row\<close> is then the copy that a list loaded
  before those two changes still shows.
\<close>

definition closed_row :: Ticket where
  "closed_row = open_row \<lparr> status_id := ''st-closed'', updated_at := 1704074400300,
                            resolved_at := Some 1704070800000, closed_at := Some 1704074400000 \<rparr>"

definition closed_store :: Store where
  "closed_store = \<lparr> ticket_row = closed_row, comment_rows = [] \<rparr>"

definition reopen_and_resolve :: "operation list" where
  "reopen_and_resolve =
     [StatusChange closed_row ''st-open'' 1704157200000 1704157200001 1704157200500,
      AssignmentChange ''Sam'' 1704160800000,
      AddComment \<lparr> newComment = ''Still failing'', commentAuthor = ''Dana'' \<rparr> ''c1'' 1704164400000,
      StatusChange closed_row ''st-resolved'' 1704168000000 1704168000001 1704168000500,
      StatusChange closed_row ''st-closed'' 1704171600000 1704171600001 1704171600500]"

definition stale_changes :: "operation list" where
  "stale_changes =
     [StatusChange open_row ''st-resolved'' 1704157200000 1704157200001 1704157200500,
      StatusChange open_row ''st-closed'' 1704160800000 1704160800001 1704160800500]"





text \<open>No code of the list is the beginning of another.\<close>

definition prefix_free :: "string list \<Rightarrow> bool" where
  "prefix_free codes = (\<forall>a \<in> set codes. \<forall>b \<in> set codes. prefix a b \<longrightarrow> a = b)"

text \<open>
  Comment forms: a text of three spaces, a text of one no-break space (U+00A0) and a
  tab, and one that is filled in.
\<close>

definition blank_form :: CommentForm where
  "blank_form = \<lparr> newComment = ''   '', commentAuthor = ''Dana'' \<rparr>"

definition no_break_space_form :: CommentForm where
  "no_break_space_form = \<lparr> newComment = [CHR 0xC2, CHR 0xA0, CHR 0x09], commentAuthor = ''Dana'' \<rparr>"

definition filled_form :: CommentForm where
  "filled_form = \<lparr> newComment = ''Still failing'', commentAuthor = ''Dana'' \<rparr>"

section \<open>Rounding and decimal text\<close>

lemma Math_round_divide:
  assumes "0 < b"
  shows "Math_round (of_int a / of_int b) = (2 * a + b) div (2 * b)"
proof -
  have "real_of_int a / real_of_int b + 1 / 2 = real_of_int (2 * a + b) / real_of_int (2 * b)"
    using assms by (simp add: field_simps)
  then show ?thesis
    unfolding Math_round_def by (simp only: floor_divide_of_int_eq)
qed

lemma Math_round_nearest: "\<bar>real_of_int (Math_round x) - x\<bar> \<le> 1 / 2"
  unfolding Math_round_def by linarith

lemma Math_round_mono: "x \<le> y \<Longrightarrow> Math_round x \<le> Math_round y"
  unfolding Math_round_def by (simp add: floor_mono)

lemma Math_round_of_int: "Math_round (of_int k) = k"
  unfolding Math_round_def by linarith

lemma nat_to_text_small: "n < 10 \<Longrightarrow> nat_to_text n = [digit_char n]"
  by (simp add: nat_to_text.simps)

lemma nat_to_text_large: "10 \<le> n \<Longrightarrow> nat_to_text n = nat_to_text (n div 10) @ [digit_char (n mod 10)]"
  by (subst nat_to_text.simps) simp

lemmas text_eval = nat_to_text_small nat_to_text_large digit_char_def int_to_text_def

section \<open>Aggregation: what \<open>calculateMetrics\<close> computes\<close>

lemma foldl_plus_sum_list: "foldl (\<lambda>sum x. sum + f x) a xs = a + sum_list (map f xs)"
  for a :: int
  by (induction xs arbitrary: a) auto

lemma avgResolutionHours_mean:
  assumes "filter (\<lambda>t. resolved_at t \<noteq> None) ts \<noteq> []"
  shows "avgResolutionHours (calculateMetrics ts) =
           Math_round (real_of_int (\<Sum>t\<leftarrow>filter (\<lambda>t. resolved_at t \<noteq> None) ts. the (resolved_at t) - created_at t)
                         / (3600000 * real (length (filter (\<lambda>t. resolved_at t \<noteq> None) ts))))"
proof -
  let ?rs = "filter (\<lambda>t. resolved_at t \<noteq> None) ts"
  have "map (\<lambda>t. getTime (resolved_at t) - created_at t) ?rs = map (\<lambda>t. the (resolved_at t) - created_at t) ?rs"
    by (rule map_cong) (auto simp: getTime_def)
  then have "(\<Sum>t\<leftarrow>?rs. getTime (resolved_at t) - created_at t) = (\<Sum>t\<leftarrow>?rs. the (resolved_at t) - created_at t)"
    by (rule arg_cong)
  moreover have "avgResolutionHours (calculateMetrics ts) =
      Math_round (real_of_int (\<Sum>t\<leftarrow>?rs. getTime (resolved_at t) - created_at t) / (3600000 * real (length ?rs)))"
    using assms by (simp add: calculateMetrics_def Let_def foldl_plus_sum_list mult.commute)
  ultimately show ?thesis by (simp only:)
qed

lemma avgResolutionHours_none_resolved:
  "filter (\<lambda>t. resolved_at t \<noteq> None) ts = [] \<Longrightarrow> avgResolutionHours (calculateMetrics ts) = 0"
  by (simp add: calculateMetrics_def)

lemma avgResolutionDisplay_not_applicable:
  "avgResolutionDisplay metrics = ''N/A'' \<longleftrightarrow> avgResolutionHours metrics \<le> 0"
proof -
  have "int_to_text k @ ''h'' \<noteq> ''N/A''" for k
  proof
    assume "int_to_text k @ ''h'' = ''N/A''"
    then have "last (int_to_text k @ ''h'') = last ''N/A''" by simp
    then show False by simp
  qed
  then show ?thesis by (auto simp: avgResolutionDisplay_def)
qed

lemma three_durations_average:
  "avgResolutionHours (calculateMetrics (filterTicketsByDate three_durations_snapshot None None)) = 4
   \<and> avgResolutionDisplay (calculateMetrics (filterTicketsByDate three_durations_snapshot None None)) = ''4h''"
  by (simp add: avgResolutionDisplay_def calculateMetrics_def filterTicketsByDate_def
      three_durations_snapshot_def sample_ticket_def getTime_def Math_round_def text_eval)

lemma no_resolved_not_applicable:
  "filter (\<lambda>t. resolved_at t \<noteq> None) ts = [] \<Longrightarrow> avgResolutionDisplay (calculateMetrics ts) = ''N/A''"
  by (simp add: avgResolutionDisplay_not_applicable avgResolutionHours_none_resolved)

text \<open>
  C1 (code at the failing input). One matching ticket, resolved ten minutes after its
  creation: the resolved count is 1, the average rounds to 0 hours, and the report's
  card shows N/A as it does when nothing is resolved.
\<close>

theorem C1_not_applicable_despite_resolved_ticket:
  "resolved (calculateMetrics (filterTicketsByDate quick_fix_snapshot None None)) = 1
   \<and> avgResolutionHours (calculateMetrics (filterTicketsByDate quick_fix_snapshot None None)) = 0
   \<and> avgResolutionDisplay (calculateMetrics (filterTicketsByDate quick_fix_snapshot None None)) = ''N/A''"
  by (simp add: avgResolutionDisplay_def calculateMetrics_def filterTicketsByDate_def
      quick_fix_snapshot_def sample_ticket_def getTime_def Math_round_def)

section \<open>Aggregation: the date range\<close>

lemma filterTicketsByDate_filter:
  "filterTicketsByDate tickets startDate endDate = filter (\<lambda>t. in_range startDate endDate (created_at t)) tickets"
  by (cases startDate; cases endDate) (simp_all add: filterTicketsByDate_def in_range_def Let_def)

text \<open>
  C7. The matching set is the snapshot, in its order, restricted to the tickets whose
  created_at is at or after the start when a start is given and at or before the end
  when an end is given; without bounds it is the whole snapshot.
\<close>

theorem C7_date_range:
  "filterTicketsByDate tickets startDate endDate =
     filter (\<lambda>t. (case startDate of None \<Rightarrow> True | Some start \<Rightarrow> created_at t \<ge> start) \<and>
                  (case endDate of None \<Rightarrow> True | Some end \<Rightarrow> created_at t \<le> end)) tickets
   \<and> (t \<in> set (filterTicketsByDate tickets startDate endDate) \<longleftrightarrow>
        t \<in> set tickets \<and>
        (case startDate of None \<Rightarrow> True | Some start \<Rightarrow> created_at t \<ge> start) \<and>
        (case endDate of None \<Rightarrow> True | Some end \<Rightarrow> created_at t \<le> end))
   \<and> filterTicketsByDate tickets None None = tickets"
  by (simp add: filterTicketsByDate_filter in_range_def)

theorem C7_date_range_witness:
  "filterTicketsByDate january_snapshot (Some 1704067200000) (Some 1706659200000) = take 2 january_snapshot
   \<and> filterTicketsByDate january_snapshot None None = january_snapshot"
  using C7_date_range [of january_snapshot "Some 1704067200000" "Some 1706659200000"]
  by (simp add: january_snapshot_def sample_ticket_def)

section \<open>Aggregation: counts and rates\<close>

lemma filterTicketsByDate_map:
  assumes "\<And>t. created_at (g t) = created_at t"
  shows "filterTicketsByDate (map g tickets) startDate endDate = map g (filterTicketsByDate tickets startDate endDate)"
  by (simp add: filterTicketsByDate_filter filter_map comp_def assms)

lemma rate_between:
  assumes "k \<le> n" "0 < n"
  shows "0 \<le> Math_round ((real k / real n) * 100) \<and> Math_round ((real k / real n) * 100) \<le> 100"
proof -
  have "0 \<le> real k / real n * 100" by simp
  then have "Math_round (of_int 0) \<le> Math_round (real k / real n * 100)"
    by (intro Math_round_mono) simp
  moreover have "real k / real n * 100 \<le> 100"
    using assms by (simp add: field_simps)
  then have "Math_round (real k / real n * 100) \<le> Math_round (of_int 100)"
    by (intro Math_round_mono) simp
  ultimately show ?thesis by (simp only: Math_round_of_int) 
qed

text \<open>
  C2 (as amended). Over the tickets that pass the date filter, the resolved count is
  the number of tickets with resolved_at set and the closed count the number with
  closed_at set, whatever status the tickets carry. The two rates are whole
  percentages: 0 when there is no ticket, and otherwise an integer between 0 and 100
  within half a point of 100 * resolved / total (100 * closed / total).
\<close>

theorem C2_counts_and_rates:
  "total' (report_metrics tickets startDate endDate) = length (filterTicketsByDate tickets startDate endDate)
   \<and> resolved (report_metrics tickets startDate endDate)
       = length (filter (\<lambda>t. resolved_at t \<noteq> None) (filterTicketsByDate tickets startDate endDate))
   \<and> closed' (report_metrics tickets startDate endDate)
       = length (filter (\<lambda>t. closed_at t \<noteq> None) (filterTicketsByDate tickets startDate endDate))
   \<and> resolved (report_metrics (map (\<lambda>t. t \<lparr> status_id := sid t, statuses := st t \<rparr>) tickets) startDate endDate)
       = resolved (report_metrics tickets startDate endDate)
   \<and> closed' (report_metrics (map (\<lambda>t. t \<lparr> status_id := sid t, statuses := st t \<rparr>) tickets) startDate endDate)
       = closed' (report_metrics tickets startDate endDate)
   \<and> (total' (report_metrics tickets startDate endDate) = 0 \<longrightarrow>
        resolutionRate (report_metrics tickets startDate endDate) = 0
        \<and> closureRate (report_metrics tickets startDate endDate) = 0)
   \<and> (0 < total' (report_metrics tickets startDate endDate) \<longrightarrow>
        \<bar>real_of_int (resolutionRate (report_metrics tickets startDate endDate))
           - 100 * real (resolved (report_metrics tickets startDate endDate))
               / real (total' (report_metrics tickets startDate endDate))\<bar> \<le> 1 / 2
        \<and> \<bar>real_of_int (closureRate (report_metrics tickets startDate endDate))
           - 100 * real (closed' (report_metrics tickets startDate endDate))
               / real (total' (report_metrics tickets startDate endDate))\<bar> \<le> 1 / 2)
   \<and> 0 \<le> resolutionRate (report_metrics tickets startDate endDate)
   \<and> resolutionRate (report_metrics tickets startDate endDate) \<le> 100
   \<and> 0 \<le> closureRate (report_metrics tickets startDate endDate)
   \<and> closureRate (report_metrics tickets startDate endDate) \<le> 100"
proof -
  let ?F = "filterTicketsByDate tickets startDate endDate"
  let ?M = "report_metrics tickets startDate endDate"
  let ?g = "\<lambda>t. t \<lparr> status_id := sid t, statuses := st t \<rparr>"
  have total: "total' ?M = length ?F"
    and res: "resolved ?M = length (filter (\<lambda>t. resolved_at t \<noteq> None) ?F)"
    and clo: "closed' ?M = length (filter (\<lambda>t. closed_at t \<noteq> None) ?F)"
    by (simp_all add: report_metrics_def calculateMetrics_def Let_def)
  have map_g: "filterTicketsByDate (map ?g tickets) startDate endDate = map ?g ?F"
    by (rule filterTicketsByDate_map) simp
  have res': "resolved (report_metrics (map ?g tickets) startDate endDate) = resolved ?M"
    unfolding report_metrics_def map_g
    by (simp add: calculateMetrics_def Let_def filter_map comp_def)
  have clo': "closed' (report_metrics (map ?g tickets) startDate endDate) = closed' ?M"
    unfolding report_metrics_def map_g
    by (simp add: calculateMetrics_def Let_def filter_map comp_def)
  have zero: "total' ?M = 0 \<longrightarrow> resolutionRate ?M = 0 \<and> closureRate ?M = 0"
    by (simp add: resolutionRate_def closureRate_def)
  have near: "0 < total' ?M \<longrightarrow>
      \<bar>real_of_int (resolutionRate ?M) - 100 * real (resolved ?M) / real (total' ?M)\<bar> \<le> 1 / 2
      \<and> \<bar>real_of_int (closureRate ?M) - 100 * real (closed' ?M) / real (total' ?M)\<bar> \<le> 1 / 2"
    using Math_round_nearest [of "real (resolved ?M) / real (total' ?M) * 100"]
      Math_round_nearest [of "real (closed' ?M) / real (total' ?M) * 100"]
    by (simp add: resolutionRate_def closureRate_def mult.commute)
  have le: "resolved ?M \<le> total' ?M" "closed' ?M \<le> total' ?M"
    by (simp_all add: total res clo)
  have between: "0 \<le> resolutionRate ?M \<and> resolutionRate ?M \<le> 100
      \<and> 0 \<le> closureRate ?M \<and> closureRate ?M \<le> 100"
    using rate_between [OF le(1)] rate_between [OF le(2)]
    by (simp add: resolutionRate_def closureRate_def)
  show ?thesis
    using total res clo res' clo' zero near between by (simp only: simp_thms)
qed

theorem C2_counts_and_rates_witness:
  "0 < total' (report_metrics one_of_three_snapshot None None)
   \<and> \<bar>real_of_int (resolutionRate (report_metrics one_of_three_snapshot None None))
        - 100 * real (resolved (report_metrics one_of_three_snapshot None None))
            / real (total' (report_metrics one_of_three_snapshot None None))\<bar> \<le> 1 / 2
   \<and> st_name (statuses (hd one_of_three_snapshot)) = ''Open''
   \<and> resolved (report_metrics one_of_three_snapshot None None) = 1"
proof -
  have pos: "0 < total' (report_metrics one_of_three_snapshot None None)"
    by (simp add: report_metrics_def calculateMetrics_def Let_def filterTicketsByDate_def one_of_three_snapshot_def)
  have "st_name (statuses (hd one_of_three_snapshot)) = ''Open''"
    by (simp add: one_of_three_snapshot_def sample_ticket_def status_open_def default_statuses_def)
  moreover have "resolved (report_metrics one_of_three_snapshot None None) = 1"
    by (simp add: report_metrics_def calculateMetrics_def filterTicketsByDate_def
        one_of_three_snapshot_def sample_ticket_def)
  ultimately show ?thesis
    using pos C2_counts_and_rates [of one_of_three_snapshot None None] by blast
qed

text \<open>
  C2 as stated fails: with one resolved ticket among three the summary shows 33 (per
  cent), which is neither 1/3 nor, read as a fraction, equal to 1/3.
\<close>

theorem C2_rate_is_not_the_quotient:
  "resolved (report_metrics one_of_three_snapshot None None) = 1
   \<and> total' (report_metrics one_of_three_snapshot None None) = 3
   \<and> resolutionRate (report_metrics one_of_three_snapshot None None) = 33
   \<and> real_of_int (resolutionRate (report_metrics one_of_three_snapshot None None))
       \<noteq> real (resolved (report_metrics one_of_three_snapshot None None))
           / real (total' (report_metrics one_of_three_snapshot None None))
   \<and> real_of_int (resolutionRate (report_metrics one_of_three_snapshot None None)) / 100
       \<noteq> real (resolved (report_metrics one_of_three_snapshot None None))
           / real (total' (report_metrics one_of_three_snapshot None None))"
proof -
  have r: "resolved (report_metrics one_of_three_snapshot None None) = 1"
    and t: "total' (report_metrics one_of_three_snapshot None None) = 3"
    by (simp_all add: report_metrics_def calculateMetrics_def filterTicketsByDate_def
        one_of_three_snapshot_def sample_ticket_def)
  have q: "resolutionRate (report_metrics one_of_three_snapshot None None) = 33"
    by (simp add: resolutionRate_def r t Math_round_def)
  show ?thesis by (simp add: r t q)
qed

section \<open>Ticket numbers\<close>

lemma like_match_any: "like_match ''%'' s"
  by (induction s) auto

lemma like_match_prefix:
  assumes "CHR ''%'' \<notin> set p" "CHR ''_'' \<notin> set p"
  shows "like_match (p @ ''%'') s \<longleftrightarrow> prefix p s"
  using assms
proof (induction p arbitrary: s)
  case Nil
  then show ?case by (simp add: like_match_any)
next
  case (Cons a p)
  then show ?case by (cases s) auto
qed

lemma digit_char_in_digits: "d < 10 \<Longrightarrow> digit_char d \<in> set ''0123456789''"
  unfolding digit_char_def by (rule nth_mem) simp

lemma nat_to_text_digits: "set (nat_to_text n) \<subseteq> set ''0123456789''"
proof (induction n rule: nat_to_text.induct)
  case (1 n)
  show ?case
  proof (cases "n < 10")
    case True
    then show ?thesis
      using digit_char_in_digits [of n] by (simp add: nat_to_text_small)
  next
    case False
    then have "set (nat_to_text (n div 10)) \<subseteq> set ''0123456789''"
      using "1" by simp
    moreover have "digit_char (n mod 10) \<in> set ''0123456789''"
      by (rule digit_char_in_digits) simp
    ultimately show ?thesis
      using False by (simp add: nat_to_text_large)
  qed
qed

lemma zero_fill_digits: "set s \<subseteq> set ''0123456789'' \<Longrightarrow> set (zero_fill k s) \<subseteq> set ''0123456789''"
  by (auto simp: zero_fill_def)

lemma to_char_digits: "set (to_char_YYYYMMDD d) \<subseteq> set ''0123456789''"
  unfolding to_char_YYYYMMDD_def
  using zero_fill_digits [OF nat_to_text_digits] by (simp del: set_simps)

lemma same_day_pattern:
  "sql_like n (''SD-'' @ to_char_YYYYMMDD d @ ''-%'') \<longleftrightarrow> prefix (''SD-'' @ to_char_YYYYMMDD d @ ''-'') n"
proof -
  have "CHR ''%'' \<notin> set (''SD-'' @ to_char_YYYYMMDD d @ ''-'')"
    and "CHR ''_'' \<notin> set (''SD-'' @ to_char_YYYYMMDD d @ ''-'')"
    using to_char_digits [of d] by auto
  then have "like_match ((''SD-'' @ to_char_YYYYMMDD d @ ''-'') @ ''%'') n
      \<longleftrightarrow> prefix (''SD-'' @ to_char_YYYYMMDD d @ ''-'') n"
    by (rule like_match_prefix)
  then show ?thesis by (simp add: sql_like_def)
qed

lemma nat_to_text_2: "10 \<le> n \<Longrightarrow> n < 100 \<Longrightarrow> nat_to_text n = [digit_char (n div 10), digit_char (n mod 10)]"
  by (simp add: nat_to_text_large nat_to_text_small)

lemma nat_to_text_3:
  "100 \<le> n \<Longrightarrow> n < 1000 \<Longrightarrow> nat_to_text n = [digit_char (n div 100), digit_char (n div 10 mod 10), digit_char (n mod 10)]"
  by (simp add: nat_to_text_large [of n] nat_to_text_2 div_mult2_eq [symmetric] less_mult_imp_div_less)

lemma nat_to_text_4:
  "1000 \<le> n \<Longrightarrow> n < 10000 \<Longrightarrow>
     nat_to_text n = [digit_char (n div 1000), digit_char (n div 100 mod 10), digit_char (n div 10 mod 10), digit_char (n mod 10)]"
  by (simp add: nat_to_text_large [of n] nat_to_text_3 div_mult2_eq [symmetric] less_mult_imp_div_less)

lemma replicate_3: "replicate 3 x = [x, x, x]"
  by (simp add: numeral_3_eq_3)

lemma replicate_2: "replicate 2 x = [x, x]"
  by (simp add: numeral_2_eq_2)

lemma lpad_digits4:
  assumes "n < 10000"
  shows "lpad (nat_to_text n) 4 ''0'' = digits4 n"
proof -
  consider "n < 10" | "10 \<le> n" "n < 100" | "100 \<le> n" "n < 1000" | "1000 \<le> n"
    by linarith
  then show ?thesis
  proof cases
    case 1
    then show ?thesis
      by (simp add: lpad_def digits4_def nat_to_text_small digit_char_def replicate_3)
  next
    case 2
    then show ?thesis
      by (simp add: lpad_def digits4_def nat_to_text_2 digit_char_def replicate_2)
  next
    case 3
    then show ?thesis
      by (simp add: lpad_def digits4_def nat_to_text_3 digit_char_def)
  next
    case 4
    then show ?thesis
      using assms by (simp add: lpad_def digits4_def nat_to_text_4)
  qed
qed

lemma zero_fill_digits4:
  assumes "n < 10000"
  shows "zero_fill 4 (nat_to_text n) = digits4 n"
proof -
  consider "n < 10" | "10 \<le> n" "n < 100" | "100 \<le> n" "n < 1000" | "1000 \<le> n"
    by linarith
  then show ?thesis
  proof cases
    case 1
    then show ?thesis
      by (simp add: zero_fill_def digits4_def nat_to_text_small digit_char_def replicate_3)
  next
    case 2
    then show ?thesis
      by (simp add: zero_fill_def digits4_def nat_to_text_2 digit_char_def replicate_2)
  next
    case 3
    then show ?thesis
      by (simp add: zero_fill_def digits4_def nat_to_text_3 digit_char_def)
  next
    case 4
    then show ?thesis
      using assms by (simp add: zero_fill_def digits4_def nat_to_text_4)
  qed
qed

lemma zero_fill_digits2:
  assumes "n < 100"
  shows "zero_fill 2 (nat_to_text n) = digits2 n"
proof (cases "n < 10")
  case True
  then show ?thesis
    by (simp add: zero_fill_def digits2_def nat_to_text_small digit_char_def)
next
  case False
  then show ?thesis
    using assms by (simp add: zero_fill_def digits2_def nat_to_text_2)
qed

lemma generate_ticket_number_small:
  assumes "length (filter (prefix (''SD-'' @ to_char_YYYYMMDD now @ ''-'')) tickets) < 9999"
  shows "generate_ticket_number tickets now =
           Inr (''SD-'' @ to_char_YYYYMMDD now @ ''-''
                 @ digits4 (length (filter (prefix (''SD-'' @ to_char_YYYYMMDD now @ ''-'')) tickets) + 1))"
proof -
  let ?k = "length (filter (prefix (''SD-'' @ to_char_YYYYMMDD now @ ''-'')) tickets)"
  have count: "length (filter (\<lambda>n. sql_like n (''SD-'' @ to_char_YYYYMMDD now @ ''-%'')) tickets) = ?k"
    by (simp only: same_day_pattern)
  have "int_to_text (int ?k + 1) = nat_to_text (?k + 1)"
    by (simp add: int_to_text_def nat_add_distrib)
  moreover have "lpad (nat_to_text (?k + 1)) 4 ''0'' = digits4 (?k + 1)"
    using assms by (intro lpad_digits4) simp
  ultimately show ?thesis
    using assms by (simp add: generate_ticket_number_def Let_def count del: append.simps)
qed
lemma set_ticket_number_small:
  assumes "new_ticket_number = None \<or> new_ticket_number = Some []"
    and "same_day_count tickets now < 9999"
  shows "set_ticket_number tickets now new_ticket_number
           = Inr (Some (day_prefix now @ digits4 (same_day_count tickets now + 1)))"
  using assms generate_ticket_number_small [of now tickets]
  by (auto simp: set_ticket_number_def same_day_count_def day_prefix_def)

lemma to_char_fixed_width:
  assumes "year now < 10000" "month now < 100" "day now < 100"
  shows "to_char_YYYYMMDD now = digits4 (year now) @ digits2 (month now) @ digits2 (day now)"
  using assms by (simp add: to_char_YYYYMMDD_def zero_fill_digits4 zero_fill_digits2)

lemma digits4_1: "digits4 (Suc 0) = ''0001''"
  by (simp add: digits4_def digit_char_def)

lemma digits4_2: "digits4 (Suc (Suc 0)) = ''0002''"
proof -
  have "digits4 2 = ''0002''"
    by (simp add: digits4_def digit_char_def)
  then show ?thesis by (simp add: numeral_2_eq_2)
qed

lemma first_two_of_a_day:
  assumes "new_ticket_number = None \<or> new_ticket_number = Some []"
    and "same_day_count tickets now = 0"
  shows "insert_ticket_number tickets now new_ticket_number = Inr (tickets @ [day_prefix now @ ''0001''])"
    and "insert_ticket_number (tickets @ [day_prefix now @ ''0001'']) now new_ticket_number
           = Inr (tickets @ [day_prefix now @ ''0001'', day_prefix now @ ''0002''])"
proof -
  have none: "\<not> prefix (day_prefix now) n" if "n \<in> set tickets" for n
    using assms(2) that by (auto simp: same_day_count_def filter_empty_conv)
  have fresh: "day_prefix now @ s \<notin> set tickets" for s
    using none [of "day_prefix now @ s"] by auto
  have first: "set_ticket_number tickets now new_ticket_number = Inr (Some (day_prefix now @ ''0001''))"
    using set_ticket_number_small [OF assms(1), of tickets now] assms(2) by (simp add: digits4_1)
  show "insert_ticket_number tickets now new_ticket_number = Inr (tickets @ [day_prefix now @ ''0001''])"
    using fresh by (simp add: insert_ticket_number_def first)
  have count: "same_day_count (tickets @ [day_prefix now @ ''0001'']) now = 1"
    using assms(2) by (simp add: same_day_count_def)
  have second: "set_ticket_number (tickets @ [day_prefix now @ ''0001'']) now new_ticket_number
      = Inr (Some (day_prefix now @ ''0002''))"
    using set_ticket_number_small [OF assms(1), of "tickets @ [day_prefix now @ ''0001'']" now]
    by (simp add: count digits4_2)
  show "insert_ticket_number (tickets @ [day_prefix now @ ''0001'']) now new_ticket_number
      = Inr (tickets @ [day_prefix now @ ''0001'', day_prefix now @ ''0002''])"
    using fresh by (simp add: insert_ticket_number_def second)
qed

text \<open>
  C3 (as amended). When the new row's ticket_number is NULL or empty and fewer than
  9999 stored numbers carry the day's prefix, the trigger sets the number to
  SD-YYYYMMDD-NNNN, NNNN being the four zero-padded digits of that count plus one;
  YYYYMMDD are the four, two and two digits of the year, month and day. On a day
  without stored numbers the first insertion stores suffix 0001 and the next 0002.
\<close>

theorem C3_generated_number:
  assumes "new_ticket_number = None \<or> new_ticket_number = Some []"
  shows "(same_day_count tickets now < 9999 \<longrightarrow>
            set_ticket_number tickets now new_ticket_number
              = Inr (Some (''SD-'' @ to_char_YYYYMMDD now @ ''-'' @ digits4 (same_day_count tickets now + 1))))
         \<and> (year now < 10000 \<and> month now < 100 \<and> day now < 100 \<longrightarrow>
            to_char_YYYYMMDD now = digits4 (year now) @ digits2 (month now) @ digits2 (day now))
         \<and> (same_day_count tickets now = 0 \<longrightarrow>
            insert_ticket_number tickets now new_ticket_number = Inr (tickets @ [day_prefix now @ ''0001''])
            \<and> insert_ticket_number (tickets @ [day_prefix now @ ''0001'']) now new_ticket_number
                = Inr (tickets @ [day_prefix now @ ''0001'', day_prefix now @ ''0002'']))"
  using set_ticket_number_small [OF assms, of tickets now] to_char_fixed_width [of now]
    first_two_of_a_day [OF assms, of tickets now]
  by (simp add: day_prefix_def)

lemma day_prefix_new_year: "day_prefix new_year_2024 = ''SD-20240101-''"
  by (simp add: day_prefix_def to_char_YYYYMMDD_def new_year_2024_def zero_fill_def text_eval)

theorem C3_generated_number_witness:
  "set_ticket_number [''SD-20231231-0007'', ''REQ-1''] new_year_2024 (Some []) = Inr (Some ''SD-20240101-0001'')
   \<and> to_char_YYYYMMDD new_year_2024 = ''20240101''
   \<and> insert_ticket_number [''SD-20231231-0007'', ''REQ-1''] new_year_2024 (Some [])
       = Inr [''SD-20231231-0007'', ''REQ-1'', ''SD-20240101-0001'']
   \<and> insert_ticket_number [''SD-20231231-0007'', ''REQ-1'', ''SD-20240101-0001''] new_year_2024 (Some [])
       = Inr [''SD-20231231-0007'', ''REQ-1'', ''SD-20240101-0001'', ''SD-20240101-0002'']"
proof -
  have count: "same_day_count [''SD-20231231-0007'', ''REQ-1''] new_year_2024 = 0"
    by (simp add: same_day_count_def day_prefix_new_year)
  have date: "year new_year_2024 < 10000 \<and> month new_year_2024 < 100 \<and> day new_year_2024 < 100"
    by (simp add: new_year_2024_def)
  have digits: "digits4 (year new_year_2024) @ digits2 (month new_year_2024) @ digits2 (day new_year_2024)
      = ''20240101''"
    by (simp add: new_year_2024_def digits4_def digits2_def digit_char_def)
  show ?thesis
    using C3_generated_number [of "Some []" "[''SD-20231231-0007'', ''REQ-1'']" new_year_2024]
    by (simp add: count date digits digits4_1 day_prefix_new_year)
qed

text \<open>
  C3 as stated fails on a day with 9999 stored numbers: the count plus one is 10000,
  LPAD cuts its text to the four characters 1000, and the generated number is the one
  of the day's thousandth ticket, which the unique constraint then rejects.
\<close>

theorem C3_ten_thousandth_number:
  "same_day_count full_day_numbers new_year_2024 + 1 = 10000
   \<and> set_ticket_number full_day_numbers new_year_2024 None = Inr (Some ''SD-20240101-1000'')
   \<and> ''SD-20240101-1000'' \<in> set full_day_numbers
   \<and> insert_ticket_number full_day_numbers new_year_2024 None = Inl unique_violation"
proof -
  have "filter (prefix ''SD-20240101-'') full_day_numbers = full_day_numbers"
    unfolding full_day_numbers_def by (rule filter_True) auto
  then have count: "same_day_count full_day_numbers new_year_2024 = 9999"
    by (simp add: same_day_count_def day_prefix_new_year full_day_numbers_def)
  have like: "length (filter (\<lambda>n. sql_like n (''SD-'' @ to_char_YYYYMMDD new_year_2024 @ ''-%'')) full_day_numbers) = 9999"
    using count by (simp only: same_day_pattern same_day_count_def day_prefix_def)
  have cut: "lpad (int_to_text 10000) 4 ''0'' = ''1000''"
    by (simp add: lpad_def text_eval)
  have pre: "''SD-'' @ to_char_YYYYMMDD new_year_2024 @ ''-'' = ''SD-20240101-''"
    using day_prefix_new_year by (simp add: day_prefix_def)
  have "generate_ticket_number full_day_numbers new_year_2024 = Inr (''SD-'' @ to_char_YYYYMMDD new_year_2024 @ ''-'' @ ''1000'')"
    by (simp add: generate_ticket_number_def Let_def like cut del: append.simps)
  then have gen: "generate_ticket_number full_day_numbers new_year_2024 = Inr ''SD-20240101-1000''"
    using pre by simp
  have trig: "set_ticket_number full_day_numbers new_year_2024 None = Inr (Some ''SD-20240101-1000'')"
    by (simp add: set_ticket_number_def gen)
  have "''SD-20240101-'' @ digits4 1000 \<in> (\<lambda>n. ''SD-20240101-'' @ digits4 n) ` set [1..<10000]"
    by (rule image_eqI [where x = 1000]) simp_all
  then have "''SD-20240101-'' @ digits4 1000 \<in> set full_day_numbers"
    by (simp only: full_day_numbers_def set_map)
  then have mem: "''SD-20240101-1000'' \<in> set full_day_numbers"
    by (simp add: digits4_def digit_char_def)
  show ?thesis
    using mem by (simp add: count trig insert_ticket_number_def)
qed

section \<open>Status changes and the lifecycle stamps\<close>

lemma update_ticket_accepts:
  assumes "status_id (set_columns row updates) \<in> st_id ` set statuses_table"
  shows "update_ticket statuses_table row updates db_now = Inr (update_updated_at (set_columns row updates) db_now)"
  using assms by (simp add: update_ticket_def update_updated_at_def)

lemma status_updates_fields:
  "u_status_id (status_updates statuses' ticket newStatusId now1 now2) = Some newStatusId"
  "u_assigned_to (status_updates statuses' ticket newStatusId now1 now2) = None"
  "u_updated_at (status_updates statuses' ticket newStatusId now1 now2) = None"
  "u_resolved_at (status_updates statuses' ticket newStatusId now1 now2) =
     (if (case find (\<lambda>s. st_id s = newStatusId) statuses' of None \<Rightarrow> False | Some s \<Rightarrow> st_name s = ''Resolved'')
          \<and> resolved_at ticket = None
      then Some now1 else None)"
  "u_closed_at (status_updates statuses' ticket newStatusId now1 now2) =
     (if (case find (\<lambda>s. st_id s = newStatusId) statuses' of None \<Rightarrow> False | Some s \<Rightarrow> is_closed s)
          \<and> closed_at ticket = None
      then Some now2 else None)"
  by (simp_all add: status_updates_def no_updates_def Let_def)

lemma handleStatusChange_row:
  assumes "newStatusId \<in> st_id ` set statuses_table"
  shows "handleStatusChange statuses_table statuses' ticket row newStatusId now1 now2 db_now =
           (update_updated_at (set_columns row (status_updates statuses' ticket newStatusId now1 now2)) db_now, [])"
proof -
  have "status_id (set_columns row (status_updates statuses' ticket newStatusId now1 now2)) = newStatusId"
    by (simp add: set_columns_def status_updates_fields)
  then show ?thesis
    using assms by (simp add: handleStatusChange_def update_ticket_accepts)
qed

text \<open>
  C4. A status change that the database accepts, towards the status that the view
  finds under the chosen identifier: the row takes that status; resolved_at becomes the
  browser's time if the status is named Resolved and the view's ticket has no
  resolved_at, and is the stored one otherwise; closed_at becomes the browser's time if
  the status has is_closed and the view's ticket has no closed_at, and is the stored
  one otherwise. Neither outcome reads what the other test reads, and a status with
  both properties sets both stamps in the one change.
\<close>

theorem C4_status_transition:
  assumes "find (\<lambda>s. st_id s = newStatusId) statuses' = Some newStatus"
    and "newStatusId \<in> st_id ` set statuses_table"
  shows "snd (handleStatusChange statuses_table statuses' ticket row newStatusId now1 now2 db_now) = []
    \<and> status_id (fst (handleStatusChange statuses_table statuses' ticket row newStatusId now1 now2 db_now)) = newStatusId
    \<and> resolved_at (fst (handleStatusChange statuses_table statuses' ticket row newStatusId now1 now2 db_now))
        = (if st_name newStatus = ''Resolved'' \<and> resolved_at ticket = None then Some now1 else resolved_at row)
    \<and> closed_at (fst (handleStatusChange statuses_table statuses' ticket row newStatusId now1 now2 db_now))
        = (if is_closed newStatus \<and> closed_at ticket = None then Some now2 else closed_at row)
    \<and> (st_name newStatus = ''Resolved'' \<and> resolved_at ticket = None \<and> is_closed newStatus \<and> closed_at ticket = None \<longrightarrow>
        resolved_at (fst (handleStatusChange statuses_table statuses' ticket row newStatusId now1 now2 db_now)) = Some now1
        \<and> closed_at (fst (handleStatusChange statuses_table statuses' ticket row newStatusId now1 now2 db_now)) = Some now2)"
  using assms(1)
  by (simp add: handleStatusChange_row [OF assms(2)] update_updated_at_def set_columns_def status_updates_fields)

theorem C4_status_transition_witness:
  "find (\<lambda>s. st_id s = ''st-resolved'') [status_open, resolved_and_closed] = Some resolved_and_closed
   \<and> ''st-resolved'' \<in> st_id ` set [status_open, resolved_and_closed]
   \<and> st_name resolved_and_closed = ''Resolved'' \<and> resolved_at open_ticket = None
   \<and> is_closed resolved_and_closed \<and> closed_at open_ticket = None
   \<and> resolved_at (fst (handleStatusChange [status_open, resolved_and_closed] [status_open, resolved_and_closed]
        open_ticket open_row ''st-resolved'' 1704070800000 1704070800001 1704070800500)) = Some 1704070800000
   \<and> closed_at (fst (handleStatusChange [status_open, resolved_and_closed] [status_open, resolved_and_closed]
        open_ticket open_row ''st-resolved'' 1704070800000 1704070800001 1704070800500)) = Some 1704070800001"
proof -
  have found: "find (\<lambda>s. st_id s = ''st-resolved'') [status_open, resolved_and_closed] = Some resolved_and_closed"
    by (simp add: status_open_def default_statuses_def resolved_and_closed_def)
  have known: "''st-resolved'' \<in> st_id ` set [status_open, resolved_and_closed]"
    by (simp add: resolved_and_closed_def)
  have facts: "st_name resolved_and_closed = ''Resolved'' \<and> resolved_at open_ticket = None
      \<and> is_closed resolved_and_closed \<and> closed_at open_ticket = None"
    by (simp add: resolved_and_closed_def open_ticket_def sample_ticket_def)
  show ?thesis
    using C4_status_transition [OF found known, of open_ticket open_row 1704070800000 1704070800001 1704070800500]
      found known facts
    by simp
qed

lemma set_columns_stamps:
  "resolved_at (set_columns row updates) = (case u_resolved_at updates of None \<Rightarrow> resolved_at row | Some v \<Rightarrow> Some v)"
  "closed_at (set_columns row updates) = (case u_closed_at updates of None \<Rightarrow> closed_at row | Some v \<Rightarrow> Some v)"
  by (simp_all add: set_columns_def)

lemma update_ticket_cases:
  "update_ticket statuses_table row updates db_now = Inl foreign_key_violation
   \<or> update_ticket statuses_table row updates db_now = Inr (update_updated_at (set_columns row updates) db_now)"
  by (simp add: update_ticket_def Let_def)

lemma status_change_keeps_resolved_at:
  assumes "resolved_at ticket \<noteq> None"
  shows "resolved_at (fst (handleStatusChange statuses_table statuses' ticket row newStatusId now1 now2 db_now))
           = resolved_at row"
  using assms update_ticket_cases [of statuses_table row "status_updates statuses' ticket newStatusId now1 now2" db_now]
  by (auto simp: handleStatusChange_def update_updated_at_def set_columns_stamps status_updates_fields)

lemma status_change_keeps_closed_at:
  assumes "closed_at ticket \<noteq> None"
  shows "closed_at (fst (handleStatusChange statuses_table statuses' ticket row newStatusId now1 now2 db_now))
           = closed_at row"
  using assms update_ticket_cases [of statuses_table row "status_updates statuses' ticket newStatusId now1 now2" db_now]
  by (auto simp: handleStatusChange_def update_updated_at_def set_columns_stamps status_updates_fields)

lemma assignment_change_keeps_stamps:
  "resolved_at (fst (handleAssignmentChange statuses_table row assignedTo db_now)) = resolved_at row"
  "closed_at (fst (handleAssignmentChange statuses_table row assignedTo db_now)) = closed_at row"
  using update_ticket_cases [of statuses_table row "no_updates \<lparr> u_assigned_to := Some assignedTo \<rparr>" db_now]
  by (auto simp: handleAssignmentChange_def update_updated_at_def set_columns_stamps no_updates_def)

lemma perform_keeps_resolved_at:
  assumes "up_to_date s operation" "resolved_at (ticket_row s) = Some t"
  shows "resolved_at (ticket_row (perform statuses_table s operation)) = Some t"
  using assms
  by (cases operation) (simp_all add: status_change_keeps_resolved_at assignment_change_keeps_stamps)

lemma perform_keeps_closed_at:
  assumes "up_to_date s operation" "closed_at (ticket_row s) = Some t"
  shows "closed_at (ticket_row (perform statuses_table s operation)) = Some t"
  using assms
  by (cases operation) (simp_all add: status_change_keeps_closed_at assignment_change_keeps_stamps)

lemma run_keeps_resolved_at:
  assumes "all_up_to_date statuses_table s operations" "resolved_at (ticket_row s) = Some t"
  shows "resolved_at (ticket_row (run statuses_table s operations)) = Some t"
  using assms
proof (induction operations arbitrary: s)
  case Nil
  then show ?case by simp
next
  case (Cons operation operations)
  then show ?case by (simp add: perform_keeps_resolved_at)
qed

lemma run_keeps_closed_at:
  assumes "all_up_to_date statuses_table s operations" "closed_at (ticket_row s) = Some t"
  shows "closed_at (ticket_row (run statuses_table s operations)) = Some t"
  using assms
proof (induction operations arbitrary: s)
  case Nil
  then show ?case by simp
next
  case (Cons operation operations)
  then show ?case by (simp add: perform_keeps_closed_at)
qed

text \<open>
  C5 (as amended). In a run of status changes, assignment changes and comment
  additions in which every status change is issued from a view whose copy of the
  ticket carries the stored resolved_at and closed_at, a resolved_at that is set keeps
  its value to the end of the run, and so does a closed_at that is set.
\<close>

theorem C5_stamps_kept:
  assumes "all_up_to_date statuses_table s operations"
  shows "(resolved_at (ticket_row s) = Some t \<longrightarrow>
            resolved_at (ticket_row (run statuses_table s operations)) = Some t)
         \<and> (closed_at (ticket_row s) = Some t' \<longrightarrow>
            closed_at (ticket_row (run statuses_table s operations)) = Some t')"
  using run_keeps_resolved_at [OF assms] run_keeps_closed_at [OF assms] by simp

lemmas example_rows = closed_store_def closed_row_def open_row_def open_ticket_def sample_ticket_def
  Ticket.truncate_def status_open_def default_statuses_def

lemmas handler_eval = handleStatusChange_def handleAssignmentChange_def handleAddComment_def
  update_ticket_def update_updated_at_def set_columns_def status_updates_def no_updates_def Let_def

theorem C5_stamps_kept_witness:
  "all_up_to_date default_statuses closed_store reopen_and_resolve
   \<and> resolved_at (ticket_row closed_store) = Some 1704070800000
   \<and> closed_at (ticket_row closed_store) = Some 1704074400000
   \<and> status_id (ticket_row (run default_statuses closed_store (take 1 reopen_and_resolve))) = ''st-open''
   \<and> status_id (ticket_row (run default_statuses closed_store reopen_and_resolve)) = ''st-closed''
   \<and> resolved_at (ticket_row (run default_statuses closed_store reopen_and_resolve)) = Some 1704070800000
   \<and> closed_at (ticket_row (run default_statuses closed_store reopen_and_resolve)) = Some 1704074400000"
proof -
  have fresh: "all_up_to_date default_statuses closed_store reopen_and_resolve"
    by (simp add: reopen_and_resolve_def example_rows handler_eval)
  have start: "resolved_at (ticket_row closed_store) = Some 1704070800000"
    "closed_at (ticket_row closed_store) = Some 1704074400000"
    by (simp_all add: example_rows)
  have left: "status_id (ticket_row (run default_statuses closed_store (take 1 reopen_and_resolve))) = ''st-open''"
    by (simp add: reopen_and_resolve_def example_rows handler_eval)
  have returned: "status_id (ticket_row (run default_statuses closed_store reopen_and_resolve)) = ''st-closed''"
    by (simp add: reopen_and_resolve_def example_rows handler_eval)
  show ?thesis
    using C5_stamps_kept [OF fresh, of 1704070800000 1704074400000] fresh start left returned by simp
qed

text \<open>
  C5 as stated fails when the acting view is not up to date: the detail view tests its
  own copy of the ticket, so a view opened from a list that was loaded before the
  ticket was resolved and closed stamps both fields again.
\<close>

theorem C5_stale_view_overwrites:
  "resolved_at (ticket_row closed_store) = Some 1704070800000
   \<and> closed_at (ticket_row closed_store) = Some 1704074400000
   \<and> id' open_row = id' (ticket_row closed_store)
   \<and> resolved_at (ticket_row (run default_statuses closed_store stale_changes)) = Some 1704157200000
   \<and> closed_at (ticket_row (run default_statuses closed_store stale_changes)) = Some 1704160800001"
  by (simp add: stale_changes_def example_rows handler_eval)

section \<open>The update stamp\<close>

lemma update_ticket_updated_at:
  assumes "update_ticket statuses_table row updates db_now = Inr row'"
  shows "updated_at row' = db_now"
  using assms by (auto simp: update_ticket_def update_updated_at_def Let_def split: if_splits)

lemma update_ticket_ignores_client_stamp:
  "update_ticket statuses_table row (updates \<lparr> u_updated_at := client_value \<rparr>) db_now
     = update_ticket statuses_table row updates db_now"
  by (simp add: update_ticket_def update_updated_at_def set_columns_def)

lemma handleAssignmentChange_row:
  assumes "status_id row \<in> st_id ` set statuses_table"
  shows "handleAssignmentChange statuses_table row assignedTo db_now =
           (update_updated_at (set_columns row (no_updates \<lparr> u_assigned_to := Some assignedTo \<rparr>)) db_now, [])"
proof -
  have "status_id (set_columns row (no_updates \<lparr> u_assigned_to := Some assignedTo \<rparr>)) = status_id row"
    by (simp add: set_columns_def no_updates_def)
  then show ?thesis
    using assms by (simp add: handleAssignmentChange_def update_ticket_accepts)
qed

text \<open>
  C6 (as amended). The update trigger stores the database's clock in updated_at
  whatever the request carries for that column, and the two requests of the detail
  view carry nothing for it. After a status change or an assignment change that the
  database accepts, updated_at is the database's time of the change; it is strictly
  greater than the stamp before exactly when that time is later than the stored stamp,
  and of two changes made one after the other the second leaves a strictly greater
  updated_at exactly when it is made at a later time of the database's clock.
\<close>

theorem C6_updated_at:
  assumes "newStatusId \<in> st_id ` set statuses_table"
    and "status_id row \<in> st_id ` set statuses_table"
  shows "updated_at (fst (handleStatusChange statuses_table statuses' ticket row newStatusId now1 now2 db_now)) = db_now
    \<and> updated_at (fst (handleAssignmentChange statuses_table row assignedTo db_now)) = db_now
    \<and> u_updated_at (status_updates statuses' ticket newStatusId now1 now2) = None
    \<and> u_updated_at (no_updates \<lparr> u_assigned_to := Some assignedTo \<rparr>) = None
    \<and> update_ticket statuses_table row (updates \<lparr> u_updated_at := Some client_value \<rparr>) db_now
        = update_ticket statuses_table row (updates \<lparr> u_updated_at := None \<rparr>) db_now
    \<and> (\<forall>row'. update_ticket statuses_table row (updates \<lparr> u_updated_at := Some client_value \<rparr>) db_now = Inr row'
          \<longrightarrow> updated_at row' = db_now)
    \<and> (updated_at row < updated_at (fst (handleStatusChange statuses_table statuses' ticket row newStatusId now1 now2 db_now))
          \<longleftrightarrow> updated_at row < db_now)
    \<and> (updated_at row < updated_at (fst (handleAssignmentChange statuses_table row assignedTo db_now))
          \<longleftrightarrow> updated_at row < db_now)
    \<and> (updated_at (fst (handleStatusChange statuses_table statuses' ticket row newStatusId now1 now2 db_now))
          < updated_at (fst (handleAssignmentChange statuses_table
              (fst (handleStatusChange statuses_table statuses' ticket row newStatusId now1 now2 db_now))
              assignedTo db_later))
          \<longleftrightarrow> db_now < db_later)"
proof -
  have status: "updated_at (fst (handleStatusChange statuses_table statuses' ticket row newStatusId now1 now2 db_now)) = db_now"
    by (simp add: handleStatusChange_row [OF assms(1)] update_updated_at_def)
  have assignment: "updated_at (fst (handleAssignmentChange statuses_table row assignedTo db_now)) = db_now"
    by (simp add: handleAssignmentChange_row [OF assms(2)] update_updated_at_def)
  have absent: "u_updated_at (status_updates statuses' ticket newStatusId now1 now2) = None"
    "u_updated_at (no_updates \<lparr> u_assigned_to := Some assignedTo \<rparr>) = None"
    by (simp_all add: status_updates_fields no_updates_def)
  have override: "update_ticket statuses_table row (updates \<lparr> u_updated_at := Some client_value \<rparr>) db_now
      = update_ticket statuses_table row (updates \<lparr> u_updated_at := None \<rparr>) db_now"
    by (simp only: update_ticket_ignores_client_stamp)
  have any: "\<forall>row'. update_ticket statuses_table row (updates \<lparr> u_updated_at := Some client_value \<rparr>) db_now = Inr row'
      \<longrightarrow> updated_at row' = db_now"
    using update_ticket_updated_at by blast
  have "status_id (fst (handleStatusChange statuses_table statuses' ticket row newStatusId now1 now2 db_now))
      \<in> st_id ` set statuses_table"
    using assms(1)
    by (simp add: handleStatusChange_row [OF assms(1)] update_updated_at_def set_columns_def status_updates_fields)
  then have second: "updated_at (fst (handleAssignmentChange statuses_table
      (fst (handleStatusChange statuses_table statuses' ticket row newStatusId now1 now2 db_now))
      assignedTo db_later)) = db_later"
    by (simp add: handleAssignmentChange_row update_updated_at_def)
  show ?thesis
    using status assignment second absent override any by (simp only: simp_thms)
qed

theorem C6_updated_at_witness:
  "''st-resolved'' \<in> st_id ` set default_statuses
   \<and> status_id open_row \<in> st_id ` set default_statuses
   \<and> updated_at (fst (handleStatusChange default_statuses default_statuses open_ticket open_row
        ''st-resolved'' 1704070800000 1704070800001 1704070800500)) = 1704070800500
   \<and> updated_at (fst (handleAssignmentChange default_statuses open_row ''Sam'' 1704070800500)) = 1704070800500
   \<and> update_ticket default_statuses open_row (no_updates \<lparr> u_updated_at := Some 9999999999999 \<rparr>) 1704070800500
       = Inr (open_row \<lparr> updated_at := 1704070800500 \<rparr>)
   \<and> updated_at open_row
       < updated_at (fst (handleStatusChange default_statuses default_statuses open_ticket open_row
           ''st-resolved'' 1704070800000 1704070800001 1704070800500))
   \<and> updated_at (fst (handleStatusChange default_statuses default_statuses open_ticket open_row
        ''st-resolved'' 1704070800000 1704070800001 1704070800500))
       < updated_at (fst (handleAssignmentChange default_statuses
           (fst (handleStatusChange default_statuses default_statuses open_ticket open_row
              ''st-resolved'' 1704070800000 1704070800001 1704070800500)) ''Sam'' 1704074400000))"
proof -
  have later: "updated_at open_row < 1704070800500"
    by (simp add: example_rows)
  have known: "''st-resolved'' \<in> st_id ` set default_statuses"
    "status_id open_row \<in> st_id ` set default_statuses"
    by (simp_all add: example_rows)
  have row: "update_ticket default_statuses open_row (no_updates \<lparr> u_updated_at := None \<rparr>) 1704070800500
      = Inr (open_row \<lparr> updated_at := 1704070800500 \<rparr>)"
    using known(2) by (simp add: update_ticket_def update_updated_at_def set_columns_def no_updates_def)
  have clock: "(1704070800500 :: timestamp) < 1704074400000" by simp
  note inst = C6_updated_at [where row = open_row and db_now = 1704070800500 and newStatusId = "''st-resolved''"
      and statuses_table = default_statuses and ?statuses' = default_statuses and ticket = open_ticket
      and ?now1.0 = 1704070800000 and ?now2.0 = 1704070800001 and assignedTo = "''Sam''"
      and updates = no_updates and client_value = 9999999999999 and db_later = 1704074400000, OF known]
  note status = inst [THEN conjunct1]
  note assignment = inst [THEN conjunct2, THEN conjunct1]
  note override = inst [THEN conjunct2, THEN conjunct2, THEN conjunct2, THEN conjunct2, THEN conjunct1]
  note strict = inst [THEN conjunct2, THEN conjunct2, THEN conjunct2, THEN conjunct2, THEN conjunct2,
      THEN conjunct2, THEN conjunct1, THEN iffD2, OF later]
  note successive = inst [THEN conjunct2, THEN conjunct2, THEN conjunct2, THEN conjunct2, THEN conjunct2,
      THEN conjunct2, THEN conjunct2, THEN conjunct2, THEN iffD2, OF clock]
  show ?thesis
    by (intro conjI known status assignment override [THEN trans, OF row] strict successive)
qed

text \<open>
  C6 as stated fails when the database's clock has not moved past the stored stamp.
  An assignment change made at the very reading that the row carries changes the
  assignee and leaves updated_at as it was, and a status change made at a reading one
  millisecond earlier (a clock set back) leaves a smaller updated_at.
\<close>

theorem C6_no_increase_without_later_clock:
  "assigned_to closed_row = []
   \<and> assigned_to (fst (handleAssignmentChange default_statuses closed_row ''Sam'' 1704074400300)) = ''Sam''
   \<and> updated_at (fst (handleAssignmentChange default_statuses closed_row ''Sam'' 1704074400300))
       = updated_at closed_row
   \<and> status_id (fst (handleStatusChange default_statuses default_statuses closed_row closed_row
        ''st-open'' 1704074400000 1704074400001 1704074400299)) = ''st-open''
   \<and> updated_at (fst (handleStatusChange default_statuses default_statuses closed_row closed_row
        ''st-open'' 1704074400000 1704074400001 1704074400299))
       < updated_at closed_row"
  by (simp add: example_rows handler_eval)

section \<open>The ticket list's order and filter\<close>







subsection \<open>Lower case on ASCII text is equality up to the case of letters\<close>










section \<open>Trimming\<close>

lemma strip_none: "find (\<lambda>w. w \<noteq> [] \<and> prefix w s) codes = None \<Longrightarrow> strip codes s = s"
  by (subst strip.simps) simp

lemma strip_some:
  "find (\<lambda>w. w \<noteq> [] \<and> prefix w s) codes = Some w \<Longrightarrow> strip codes s = strip codes (drop (length w) s)"
  by (subst strip.simps) simp

lemma strip_Nil: "strip codes [] = []"
  by (rule strip_none) (simp add: find_None_iff)

lemma strip_decomposition: "\<exists>ws. set ws \<subseteq> set codes \<and> s = concat ws @ strip codes s"
proof (induction codes s rule: strip.induct)
  case (1 codes s)
  show ?case
  proof (cases "find (\<lambda>w. w \<noteq> [] \<and> prefix w s) codes")
    case None
    then have "set [] \<subseteq> set codes \<and> s = concat [] @ strip codes s"
      by (simp add: strip_none)
    then show ?thesis by blast
  next
    case (Some w)
    then have w: "w \<in> set codes" "prefix w s"
      by (auto simp: find_Some_iff)
    from "1" [OF Some] obtain ws where ws: "set ws \<subseteq> set codes"
      "drop (length w) s = concat ws @ strip codes (drop (length w) s)"
      by blast
    have "s = w @ drop (length w) s"
      using w(2) by (auto simp: prefix_def)
    then have "s = concat (w # ws) @ strip codes s"
      using ws(2) by (simp add: strip_some [OF Some])
    moreover have "set (w # ws) \<subseteq> set codes"
      using w(1) ws(1) by simp
    ultimately show ?thesis by blast
  qed
qed

lemma strip_code:
  assumes "prefix_free codes" "w \<in> set codes" "w \<noteq> []"
  shows "strip codes (w @ r) = strip codes r"
proof -
  have "find (\<lambda>v. v \<noteq> [] \<and> prefix v (w @ r)) codes \<noteq> None"
    using assms(2,3) by (auto simp: find_None_iff)
  then obtain v where v: "find (\<lambda>v. v \<noteq> [] \<and> prefix v (w @ r)) codes = Some v"
    by blast
  then have "v \<in> set codes" "prefix v (w @ r)"
    by (auto simp: find_Some_iff)
  moreover have "prefix w (w @ r)" by simp
  ultimately have "prefix v w \<or> prefix w v"
    using prefix_same_cases by blast
  then have "v = w"
    using assms(1,2) \<open>v \<in> set codes\<close> by (auto simp: prefix_free_def)
  then show ?thesis
    using strip_some [OF v] by simp
qed

lemma strip_concat:
  assumes "prefix_free codes" "[] \<notin> set codes" "set ws \<subseteq> set codes"
  shows "strip codes (concat ws @ r) = strip codes r"
  using assms(3)
proof (induction ws)
  case Nil
  then show ?case by simp
next
  case (Cons w ws)
  then have "w \<in> set codes" "w \<noteq> []"
    using assms(2) by auto
  then show ?case
    using Cons strip_code [OF assms(1), of w "concat ws @ r"] by simp
qed

lemma white_space_prefix_free: "prefix_free white_space"
  unfolding prefix_free_def white_space_def by simp

lemma white_space_nonempty: "[] \<notin> set white_space"
  by (simp add: white_space_def)

lemma trim_empty_iff: "trim s = [] \<longleftrightarrow> (\<exists>ws. set ws \<subseteq> set white_space \<and> s = concat ws)"
proof
  assume "trim s = []"
  then have "strip (map rev white_space) (rev (strip white_space s)) = []"
    by (simp add: trim_def trimEnd_def trimStart_def)
  moreover obtain rs where rs: "set rs \<subseteq> set (map rev white_space)"
    "rev (strip white_space s) = concat rs @ strip (map rev white_space) (rev (strip white_space s))"
    using strip_decomposition by blast
  ultimately have "rev (strip white_space s) = concat rs" by simp
  then have "strip white_space s = rev (concat rs)"
    by (metis rev_rev_ident)
  then have tail: "strip white_space s = concat (map rev (rev rs))"
    by (simp add: rev_concat)
  have tail_ws: "set (map rev (rev rs)) \<subseteq> set white_space"
    using rs(1) by auto
  obtain ws where ws: "set ws \<subseteq> set white_space" "s = concat ws @ strip white_space s"
    using strip_decomposition by blast
  have "s = concat (ws @ map rev (rev rs))"
    using ws(2) tail by simp
  moreover have "set (ws @ map rev (rev rs)) \<subseteq> set white_space"
    using ws(1) tail_ws by simp
  ultimately show "\<exists>ws. set ws \<subseteq> set white_space \<and> s = concat ws" by blast
next
  assume "\<exists>ws. set ws \<subseteq> set white_space \<and> s = concat ws"
  then obtain ws where "set ws \<subseteq> set white_space" "s = concat ws" by blast
  then have "strip white_space s = []"
    using strip_concat [OF white_space_prefix_free white_space_nonempty, of ws "[]"]
    by (simp add: strip_Nil)
  then show "trim s = []"
    by (simp add: trim_def trimEnd_def trimStart_def strip_Nil)
qed

lemma trim_unchanged:
  assumes "find (\<lambda>w. w \<noteq> [] \<and> prefix w s) white_space = None"
    and "find (\<lambda>w. w \<noteq> [] \<and> prefix w (rev s)) (map rev white_space) = None"
  shows "trim s = s"
  by (simp add: trim_def trimEnd_def trimStart_def strip_none assms)

lemma trim_still_failing: "trim ''Still failing'' = ''Still failing''"
  by (rule trim_unchanged) (simp_all add: white_space_def)

lemma trim_dana: "trim ''Dana'' = ''Dana''"
  by (rule trim_unchanged) (simp_all add: white_space_def)

lemma trim_three_spaces: "trim ''   '' = []"
  unfolding trim_empty_iff
  by (rule exI [of _ "[[CHR 0x20], [CHR 0x20], [CHR 0x20]]"]) (simp add: white_space_def)

lemma trim_no_break_space: "trim [CHR 0xC2, CHR 0xA0, CHR 0x09] = []"
  unfolding trim_empty_iff
  by (rule exI [of _ "[[CHR 0xC2, CHR 0xA0], [CHR 0x09]]"]) (simp add: white_space_def)

section \<open>Adding a comment\<close>

lemma handleAddComment_blank:
  assumes "trim (newComment form) = [] \<or> trim (commentAuthor form) = []"
  shows "handleAddComment ticket_ids table ticket form new_id db_now = (table, form, [])"
  using assms by (auto simp: handleAddComment_def)

lemma handleAddComment_stored:
  assumes "trim (newComment form) \<noteq> []" "trim (commentAuthor form) \<noteq> []" "id' ticket \<in> set ticket_ids"
  shows "handleAddComment ticket_ids table ticket form new_id db_now =
           (table @ [\<lparr> c_id = new_id, ticket_id = id' ticket, comment = newComment form,
                        author_name = commentAuthor form, is_internal = False, c_created_at = db_now \<rparr>],
            form \<lparr> newComment := [] \<rparr>, [])"
  using assms by (simp add: handleAddComment_def insert_ticket_comment_def)

lemma handleAddComment_rejected:
  assumes "trim (newComment form) \<noteq> []" "trim (commentAuthor form) \<noteq> []" "id' ticket \<notin> set ticket_ids"
  shows "handleAddComment ticket_ids table ticket form new_id db_now = (table, form, [''Failed to add comment''])"
  using assms by (simp add: handleAddComment_def insert_ticket_comment_def)

text \<open>
  C9 (as amended). When the text or the author is empty after trimming, the handler
  returns without storing a comment and without reporting anything: the thread and the
  form are as before and no alert is shown. Otherwise, for a ticket that exists, it
  appends one comment with the text and author as typed and created_at the database's
  time, and clears the text field. A text is empty after trimming exactly when it is
  made of white-space code points only.
\<close>

theorem C9_add_comment:
  "(trim (newComment form) = [] \<or> trim (commentAuthor form) = [] \<longrightarrow>
      handleAddComment ticket_ids table ticket form new_id db_now = (table, form, []))
   \<and> (trim (newComment form) \<noteq> [] \<and> trim (commentAuthor form) \<noteq> [] \<and> id' ticket \<in> set ticket_ids \<longrightarrow>
      handleAddComment ticket_ids table ticket form new_id db_now =
        (table @ [\<lparr> c_id = new_id, ticket_id = id' ticket, comment = newComment form,
                     author_name = commentAuthor form, is_internal = False, c_created_at = db_now \<rparr>],
         form \<lparr> newComment := [] \<rparr>, []))
   \<and> (trim s = [] \<longleftrightarrow> (\<exists>ws. set ws \<subseteq> set white_space \<and> s = concat ws))"
  using handleAddComment_blank [of form ticket_ids table ticket new_id db_now]
    handleAddComment_stored [of form ticket ticket_ids table new_id db_now]
    trim_empty_iff [of s]
  by blast

lemma trim_blank_form: "trim (newComment blank_form) = []"
  by (simp add: blank_form_def trim_three_spaces)

lemma trim_filled_form: "trim (newComment filled_form) \<noteq> [] \<and> trim (commentAuthor filled_form) \<noteq> []"
  by (simp add: filled_form_def trim_still_failing trim_dana)

theorem C9_add_comment_witness:
  "(trim (newComment blank_form) = [] \<or> trim (commentAuthor blank_form) = [])
   \<and> handleAddComment [''t1''] [] open_ticket blank_form ''c1'' 1704164400000 = ([], blank_form, [])
   \<and> handleAddComment [''t1''] [] open_ticket no_break_space_form ''c1'' 1704164400000
       = ([], no_break_space_form, [])
   \<and> trim (newComment filled_form) \<noteq> [] \<and> trim (commentAuthor filled_form) \<noteq> []
   \<and> id' open_ticket \<in> set [''t1'']
   \<and> handleAddComment [''t1''] [] open_ticket filled_form ''c1'' 1704164400000 =
        ([\<lparr> c_id = ''c1'', ticket_id = ''t1'', comment = ''Still failing'', author_name = ''Dana'',
             is_internal = False, c_created_at = 1704164400000 \<rparr>],
         filled_form \<lparr> newComment := [] \<rparr>, [])"
proof -
  have blank: "trim (newComment blank_form) = [] \<or> trim (commentAuthor blank_form) = []"
    using trim_blank_form by simp
  have "\<exists>ws. set ws \<subseteq> set white_space \<and> newComment no_break_space_form = concat ws"
    by (rule exI [of _ "[[CHR 0xC2, CHR 0xA0], [CHR 0x09]]"]) (simp add: white_space_def no_break_space_form_def)
  then have "trim (newComment no_break_space_form) = []"
    using C9_add_comment [where s = "newComment no_break_space_form", THEN conjunct2, THEN conjunct2] by blast
  then have nbsp: "trim (newComment no_break_space_form) = [] \<or> trim (commentAuthor no_break_space_form) = []"
    by simp
  have filled: "trim (newComment filled_form) \<noteq> [] \<and> trim (commentAuthor filled_form) \<noteq> [] \<and> id' open_ticket \<in> set [''t1'']"
    using trim_filled_form by (simp add: open_ticket_def sample_ticket_def)
  have fields: "id' open_ticket = ''t1''" "newComment filled_form = ''Still failing''" "commentAuthor filled_form = ''Dana''"
    by (simp_all add: open_ticket_def sample_ticket_def filled_form_def)
  note skipped = C9_add_comment [where form = blank_form and ticket_ids = "[''t1'']" and table = "[]"
      and ticket = open_ticket and new_id = "''c1''" and db_now = 1704164400000, THEN conjunct1, THEN mp, OF blank]
  note skipped' = C9_add_comment [where form = no_break_space_form and ticket_ids = "[''t1'']" and table = "[]"
      and ticket = open_ticket and new_id = "''c1''" and db_now = 1704164400000, THEN conjunct1, THEN mp, OF nbsp]
  note stored = C9_add_comment [where form = filled_form and ticket_ids = "[''t1'']" and table = "[]"
      and ticket = open_ticket and new_id = "''c1''" and db_now = 1704164400000,
      THEN conjunct2, THEN conjunct1, THEN mp, OF filled]
  have stored': "handleAddComment [''t1''] [] open_ticket filled_form ''c1'' 1704164400000 =
        ([\<lparr> c_id = ''c1'', ticket_id = ''t1'', comment = ''Still failing'', author_name = ''Dana'',
             is_internal = False, c_created_at = 1704164400000 \<rparr>],
         filled_form \<lparr> newComment := [] \<rparr>, [])"
    using stored by (simp only: fields append_Nil)
  show ?thesis
    using blank skipped skipped' stored' filled by blast
qed

text \<open>
  C9 as stated fails: with a blank text the handler reports no failure of any kind. It
  shows no alert and returns as a call that had nothing to do, where a rejected
  insertion does show one.
\<close>

theorem C9_blank_comment_is_silent:
  "trim (newComment blank_form) = []
   \<and> handleAddComment [''t1''] [] open_ticket blank_form ''c1'' 1704164400000 = ([], blank_form, [])
   \<and> snd (snd (handleAddComment [''t1''] [] open_ticket blank_form ''c1'' 1704164400000)) = []
   \<and> snd (snd (handleAddComment [] [] open_ticket filled_form ''c1'' 1704164400000)) = [''Failed to add comment'']"
proof -
  have silent: "handleAddComment [''t1''] [] open_ticket blank_form ''c1'' 1704164400000 = ([], blank_form, [])"
    by (rule handleAddComment_blank) (simp add: trim_blank_form)
  have "id' open_ticket \<notin> set []" by simp
  then have alert: "handleAddComment [] [] open_ticket filled_form ''c1'' 1704164400000
      = ([], filled_form, [''Failed to add comment''])"
    using trim_filled_form by (intro handleAddComment_rejected) simp_all
  show ?thesis
    by (simp add: trim_blank_form silent alert)
qed

section \<open>Comments are never internal\<close>

lemma handleAddComment_public:
  assumes "\<forall>c \<in> set table. \<not> is_internal c"
  shows "\<forall>c \<in> set (fst (handleAddComment ticket_ids table ticket form new_id db_now)). \<not> is_internal c"
  using assms by (auto simp: handleAddComment_def insert_ticket_comment_def split: if_splits)

lemma perform_public:
  assumes "\<forall>c \<in> set (comment_rows s). \<not> is_internal c"
  shows "\<forall>c \<in> set (comment_rows (perform statuses_table s operation)). \<not> is_internal c"
proof (cases operation)
  case (StatusChange ticket newStatusId now1 now2 db_now)
  then show ?thesis using assms by simp
next
  case (AssignmentChange assignedTo db_now)
  then show ?thesis using assms by simp
next
  case (AddComment form new_id db_now)
  then show ?thesis
    using handleAddComment_public [OF assms] by simp
qed

lemma run_public:
  assumes "\<forall>c \<in> set (comment_rows s). \<not> is_internal c"
  shows "\<forall>c \<in> set (comment_rows (run statuses_table s operations)). \<not> is_internal c"
  using assms
proof (induction operations arbitrary: s)
  case Nil
  then show ?case by simp
next
  case (Cons operation operations)
  show ?case
    using Cons.IH [OF perform_public [OF Cons.prems]] by simp
qed

text \<open>
  C10. A comment that the handler stores has is_internal = false, whatever the form
  holds; hence a thread without internal notes has none after any run of status
  changes, assignment changes and comment additions.
\<close>

theorem C10_comments_are_public:
  "(fst (handleAddComment ticket_ids table ticket form new_id db_now) = table
      \<or> (\<exists>c. fst (handleAddComment ticket_ids table ticket form new_id db_now) = table @ [c] \<and> is_internal c = False))
   \<and> ((\<forall>c \<in> set (comment_rows s). is_internal c = False) \<longrightarrow>
        (\<forall>c \<in> set (comment_rows (run statuses_table s operations)). is_internal c = False))"
proof -
  have one: "fst (handleAddComment ticket_ids table ticket form new_id db_now) = table
      \<or> (\<exists>c. fst (handleAddComment ticket_ids table ticket form new_id db_now) = table @ [c] \<and> is_internal c = False)"
    by (auto simp: handleAddComment_def insert_ticket_comment_def)
  show ?thesis
    using one run_public [of s statuses_table operations] by simp
qed

theorem C10_comments_are_public_witness:
  "comment_rows closed_store = []
   \<and> map is_internal (comment_rows (run default_statuses closed_store reopen_and_resolve)) = [False]"
proof -
  have empty: "comment_rows closed_store = []"
    by (simp add: closed_store_def)
  then have before: "\<forall>c \<in> set (comment_rows closed_store). is_internal c = False"
    by simp
  have one: "length (comment_rows (run default_statuses closed_store reopen_and_resolve)) = 1"
    by (simp add: reopen_and_resolve_def example_rows handler_eval insert_ticket_comment_def trim_still_failing trim_dana)
  note public = C10_comments_are_public [where s = closed_store and statuses_table = default_statuses
      and operations = reopen_and_resolve, THEN conjunct2, THEN mp, OF before]
  have "map is_internal (comment_rows (run default_statuses closed_store reopen_and_resolve)) = [False]"
    using one public
    by (cases "comment_rows (run default_statuses closed_store reopen_and_resolve)") auto
  with empty show ?thesis by blast
qed

end
